theory Spec2Isabelle
  imports Complex_Main
begin

section \<open>JavaScript numbers\<close>

text \<open>
  Prices and totals are JavaScript numbers. A value is a finite double (given by the
  rational it stands for), the negative zero, an infinity or NaN. \<open>0\<close> is the positive
  zero.
\<close>

datatype number = Finite rat | NegZero | PosInfinity | NegInfinity | NotANumber

instantiation number :: zero
begin

definition zero_number :: number where
  "zero_number = Finite 0"

instance ..

end

text \<open>\<open>x || 0\<close>: the falsy numbers are both zeros and NaN.\<close>

definition orZero :: "number \<Rightarrow> number" where
  "orZero x = (if x = Finite 0 \<or> x = NegZero \<or> x = NotANumber then 0 else x)"

text \<open>
  The arithmetic of the engine is a parameter of the model: addition, multiplication,
  division, \<open>Math.round\<close>, and the number that an integer amount is.
\<close>

record arith =
  numPlus :: "number \<Rightarrow> number \<Rightarrow> number"
  numTimes :: "number \<Rightarrow> number \<Rightarrow> number"
  numDivide :: "number \<Rightarrow> number \<Rightarrow> number"
  mathRound :: "number \<Rightarrow> number"
  numOfInt :: "int \<Rightarrow> number"

subsection \<open>IEEE 754 binary64\<close>

text \<open>
  The arithmetic of ECMAScript: every operation yields the double nearest to the exact
  result, a tie going to the even significand. \<open>expo x\<close> is the binary exponent of \<open>x\<close>
  (the largest \<open>e\<close> with \<open>2 powi e \<le> \<bar>x\<bar>\<close>), found by bisection between the exponent
  below the smallest subnormal and the first exponent out of range. Doubles with exponent
  \<open>e\<close> are \<open>2 powi (e - 52)\<close> apart, subnormal ones \<open>2 powi (- 1074)\<close>. A result of
  magnitude \<open>2 ^ 1024\<close> or more is an infinity; a non-zero result that rounds to zero keeps
  its sign.
\<close>

fun bsearch :: "nat \<Rightarrow> int \<Rightarrow> int \<Rightarrow> rat \<Rightarrow> int" where
  "bsearch 0 lo hi x = lo"
| "bsearch (Suc n) lo hi x =
     (let mid = (lo + hi) div 2
      in if 2 powi mid \<le> x then bsearch n mid hi x else bsearch n lo mid x)"

definition expo :: "rat \<Rightarrow> int" where
  "expo x = bsearch 12 (- 1075) 1024 \<bar>x\<bar>"

definition roundEven :: "rat \<Rightarrow> int" where
  "roundEven y =
     (let f = \<lfloor>y\<rfloor>; r = y - of_int f
      in if r < 1 / 2 then f else if 1 / 2 < r then f + 1 else if even f then f else f + 1)"

definition fl :: "rat \<Rightarrow> number" where
  "fl x =
     (if x = 0 then Finite 0
      else if 2 ^ 1024 \<le> \<bar>x\<bar> then (if 0 < x then PosInfinity else NegInfinity)
      else
        let q = 2 powi (max (expo x) (- 1022) - 52);
            y = of_int (roundEven (x / q)) * q
        in if 2 ^ 1024 \<le> \<bar>y\<bar> then (if 0 < x then PosInfinity else NegInfinity)
           else if y = 0 then (if 0 < x then Finite 0 else NegZero)
           else Finite y)"

fun negative :: "number \<Rightarrow> bool" where
  "negative (Finite a) = (a < 0)"
| "negative NegZero = True"
| "negative NegInfinity = True"
| "negative PosInfinity = False"
| "negative NotANumber = False"

definition isZero :: "number \<Rightarrow> bool" where
  "isZero x = (x = Finite 0 \<or> x = NegZero)"

definition isInf :: "number \<Rightarrow> bool" where
  "isInf x = (x = PosInfinity \<or> x = NegInfinity)"

definition signedZero :: "bool \<Rightarrow> number" where
  "signedZero neg = (if neg then NegZero else Finite 0)"

definition signedInf :: "bool \<Rightarrow> number" where
  "signedInf neg = (if neg then NegInfinity else PosInfinity)"

fun b64_plus :: "number \<Rightarrow> number \<Rightarrow> number" where
  "b64_plus NotANumber y = NotANumber"
| "b64_plus x NotANumber = NotANumber"
| "b64_plus PosInfinity NegInfinity = NotANumber"
| "b64_plus NegInfinity PosInfinity = NotANumber"
| "b64_plus PosInfinity y = PosInfinity"
| "b64_plus NegInfinity y = NegInfinity"
| "b64_plus x PosInfinity = PosInfinity"
| "b64_plus x NegInfinity = NegInfinity"
| "b64_plus NegZero y = y"
| "b64_plus x NegZero = x"
| "b64_plus (Finite a) (Finite b) = (if a + b = 0 then Finite 0 else fl (a + b))"

definition b64_times :: "number \<Rightarrow> number \<Rightarrow> number" where
  "b64_times x y =
     (if x = NotANumber \<or> y = NotANumber then NotANumber
      else
        let neg = (negative x \<noteq> negative y) in
        if isInf x \<or> isInf y then (if isZero x \<or> isZero y then NotANumber else signedInf neg)
        else if isZero x \<or> isZero y then signedZero neg
        else (case (x, y) of (Finite a, Finite b) \<Rightarrow> fl (a * b) | _ \<Rightarrow> NotANumber))"

definition b64_divide :: "number \<Rightarrow> number \<Rightarrow> number" where
  "b64_divide x y =
     (if x = NotANumber \<or> y = NotANumber then NotANumber
      else
        let neg = (negative x \<noteq> negative y) in
        if isInf x then (if isInf y then NotANumber else signedInf neg)
        else if isInf y then signedZero neg
        else if isZero y then (if isZero x then NotANumber else signedInf neg)
        else if isZero x then signedZero neg
        else (case (x, y) of (Finite a, Finite b) \<Rightarrow> fl (a / b) | _ \<Rightarrow> NotANumber))"

text \<open>\<open>Math.round\<close>: the nearest integer, a half going up; from \<open>-0.5\<close> up to the
  negative zero the result is the negative zero.\<close>

fun b64_round :: "number \<Rightarrow> number" where
  "b64_round (Finite a) =
     (if a < 0 \<and> - (1 / 2) \<le> a then NegZero else Finite (of_int \<lfloor>a + 1 / 2\<rfloor>))"
| "b64_round x = x"

definition binary64 :: arith where
  "binary64 = \<lparr>numPlus = b64_plus, numTimes = b64_times, numDivide = b64_divide,
               mathRound = b64_round, numOfInt = (\<lambda>k. fl (of_int k))\<rparr>"

section \<open>Data model\<close>

text \<open>
  The store holds four MongoDB collections. An ObjectId is modelled as a natural number;
  the driver's ObjectId generator is the counter \<open>nextId\<close>. Stock counts and amounts are
  integers, prices and totals are JavaScript numbers. The request-time field \<open>orderDate\<close> and the fields of a record that none of the
  embedded functions reads (year, group, discontinued) are left out. The validators of the
  schemas are not run; where a property needs the bound \<open>min: 1\<close> on a line's amount, it
  is a hypothesis on the stored carts.
\<close>

type_synonym objectId = nat

text \<open>
  \<open>RecordSchema\<close> (models/Record.ts) declares the required field \<open>stock\<close> (default 0) and,
  ``to handle additional fields temporarily'', the legacy field \<open>Stock\<close> with
  \<open>select: false\<close>. The legacy field can be absent, hold a number, or hold the result of a
  JavaScript addition on \<open>undefined\<close>, which is NaN.
\<close>

datatype jsnum = Num int | NaN

record record_doc =
  title :: string
  imageRecord :: "string option"
  price :: number
  stock :: int
  Stock :: "jsnum option"

text \<open>\<open>ICartItem\<close> and \<open>ICart\<close> (models/Cart.ts).\<close>

record recordDetails =
  rd_title :: string
  rd_image :: string

record cart_item =
  recordId :: objectId
  amount :: int
  itemPrice :: number
  itemDetails :: "recordDetails option"

record cart =
  cart_id :: objectId
  userId :: objectId
  cartEmail :: "string option"
  items :: "cart_item list"
  totalPrice :: number
  enabled :: bool

text \<open>\<open>IUser\<close> (models/User.ts), without the credentials.\<close>

record user =
  user_id :: objectId
  userEmail :: string
  cartId :: "objectId option"

text \<open>\<open>IOrderItem\<close> and \<open>IOrder\<close> (models/Order.ts).\<close>

record order_item =
  o_recordId :: objectId
  o_amount :: int
  o_price :: number

record order =
  order_id :: objectId
  o_userId :: objectId
  o_userEmail :: string
  o_items :: "order_item list"
  total :: number
  paymentMethod :: string

record db =
  users :: "user list"
  records :: "objectId \<rightharpoonup> record_doc"
  carts :: "cart list"
  orders :: "order list"
  nextId :: objectId

text \<open>
  Every \<open>save\<close>, \<open>updateOne\<close> and \<open>findByIdAndUpdate\<close> is a call into the driver that can
  reject. Whether the writes to a collection are accepted during a call is given by the
  environment; reads are taken to succeed. The environment also holds the arithmetic.
\<close>

record env =
  recordWrites :: bool
  cartWrites :: bool
  orderWrites :: bool
  userWrites :: bool
  num :: arith

definition all_ok :: env where
  "all_ok = \<lparr>recordWrites = True, cartWrites = True, orderWrites = True, userWrites = True,
              num = binary64\<rparr>"

text \<open>The errors thrown by the services, one constructor per message.\<close>

datatype error =
    RecordNotFound            \<comment> \<open>"Record not found", "Record with ID ... not found"\<close>
  | NotEnoughStock            \<comment> \<open>"Not enough stock"\<close>
  | CannotDecreaseStock       \<comment> \<open>"Cannot decrease stock by ... when current stock is ..."\<close>
  | UserNotFound              \<comment> \<open>"User not found", "User not found with this email"\<close>
  | CartNotFound              \<comment> \<open>"Cart not found for this user", "Cart not found"\<close>
  | ItemNotFound              \<comment> \<open>"Item not found in cart"\<close>
  | CannotRemoveMore          \<comment> \<open>"Cannot remove more items than are in the cart"\<close>
  | FailedToRetrieve          \<comment> \<open>"Failed to retrieve updated cart"\<close>
  | EmptyCart                 \<comment> \<open>"Cannot create an order from an empty cart."\<close>
  | FailedToCreateOrder       \<comment> \<open>"Failed to create order"\<close>
  | WriteRejected             \<comment> \<open>the driver rejected a write\<close>
  | TypeError                 \<comment> \<open>property read on \<open>null\<close>\<close>

section \<open>Queries and writes\<close>

definition findUserById :: "db \<Rightarrow> objectId \<Rightarrow> user option" where
  "findUserById d uid = find (\<lambda>u. user_id u = uid) (users d)"

definition findUserByEmail :: "db \<Rightarrow> string \<Rightarrow> user option" where
  "findUserByEmail d email = find (\<lambda>u. userEmail u = email) (users d)"

text \<open>\<open>Cart.findOne({ userId, enabled })\<close> and \<open>Cart.findById\<close>.\<close>

definition findCart :: "db \<Rightarrow> objectId \<Rightarrow> bool \<Rightarrow> cart option" where
  "findCart d uid en = find (\<lambda>c. userId c = uid \<and> enabled c = en) (carts d)"

definition findCartById :: "db \<Rightarrow> objectId \<Rightarrow> cart option" where
  "findCartById d cid = find (\<lambda>c. cart_id c = cid) (carts d)"

text \<open>
  Saving a document that was loaded from the collection replaces the stored document with
  the same \<open>_id\<close>; saving a document made by \<open>new Cart\<close> inserts it.
\<close>

definition updateCart :: "db \<Rightarrow> cart \<Rightarrow> db" where
  "updateCart d c = d\<lparr>carts := map (\<lambda>x. if cart_id x = cart_id c then c else x) (carts d)\<rparr>"

definition insertCart :: "db \<Rightarrow> cart \<Rightarrow> db" where
  "insertCart d c = d\<lparr>carts := carts d @ [c]\<rparr>"

definition setStock :: "db \<Rightarrow> objectId \<Rightarrow> record_doc \<Rightarrow> int \<Rightarrow> db" where
  "setStock d rid r v = d\<lparr>records := (records d)(rid \<mapsto> r\<lparr>stock := v\<rparr>)\<rparr>"

text \<open>\<open>Array.prototype.findIndex\<close>; \<open>None\<close> stands for \<open>-1\<close>.\<close>

fun findIndex :: "('a \<Rightarrow> bool) \<Rightarrow> 'a list \<Rightarrow> nat option" where
  "findIndex P [] = None"
| "findIndex P (x # xs) = (if P x then Some 0 else map_option Suc (findIndex P xs))"

text \<open>\<open>xs.splice(i, 1)\<close>.\<close>

definition splice1 :: "nat \<Rightarrow> 'a list \<Rightarrow> 'a list" where
  "splice1 i xs = take i xs @ drop (Suc i) xs"

section \<open>The cart model's total\<close>

text \<open>
  The reducer of \<open>addItemToCart\<close>: \<open>total + itemAmount * itemPrice\<close> with
  \<open>itemAmount = Number(item.amount) || 0\<close> and \<open>itemPrice = Number(item.price) || 0\<close>,
  folded from the left over the items, starting at 0.
\<close>

definition lineTotalAdd :: "arith \<Rightarrow> cart_item \<Rightarrow> number" where
  "lineTotalAdd a item =
     (let itemAmount = orZero (numOfInt a (amount item));
          itemPrice' = orZero (itemPrice item)
      in numTimes a itemAmount itemPrice')"

definition reduceTotalAdd :: "arith \<Rightarrow> cart_item list \<Rightarrow> number" where
  "reduceTotalAdd a xs = foldl (\<lambda>total item. numPlus a total (lineTotalAdd a item)) 0 xs"

text \<open>\<open>Math.round(x * 100) / 100\<close>.\<close>

definition round2 :: "arith \<Rightarrow> number \<Rightarrow> number" where
  "round2 a x = numDivide a (mathRound a (numTimes a x (Finite 100))) (Finite 100)"

text \<open>
  \<open>CartSchema.methods.recalculateTotal\<close> (models/Cart.ts): the reducer is
  \<open>acc + (amount * price)\<close>, amount and price being numbers; a NaN total becomes 0.
\<close>

definition lineTotal :: "arith \<Rightarrow> cart_item \<Rightarrow> number" where
  "lineTotal a item = numTimes a (numOfInt a (amount item)) (itemPrice item)"

definition reduceTotal :: "arith \<Rightarrow> cart_item list \<Rightarrow> number" where
  "reduceTotal a xs = foldl (\<lambda>acc item. numPlus a acc (lineTotal a item)) 0 xs"

definition nanToZero :: "number \<Rightarrow> number" where
  "nanToZero t = (if t = NotANumber then 0 else t)"

definition recalculateTotal :: "arith \<Rightarrow> cart \<Rightarrow> cart" where
  "recalculateTotal a c = c\<lparr>totalPrice := nanToZero (reduceTotal a (items c))\<rparr>"

section \<open>recordService.updateStock\<close>

text \<open>
  The document is read with \<open>findById(id).lean()\<close>. \<open>stock\<close> is a required field, so
  \<open>record.stock !== undefined\<close> holds, \<open>currentStock\<close> is \<open>record.stock\<close> and the
  \<open>typeof\<close> check passes. The update sets \<open>stock\<close> and unsets \<open>Stock\<close>.
\<close>

definition updateStock :: "env \<Rightarrow> db \<Rightarrow> objectId \<Rightarrow> int \<Rightarrow> (error + int) \<times> db" where
  "updateStock e d rid amt =
     (case records d rid of
        None \<Rightarrow> (Inl RecordNotFound, d)
      | Some r \<Rightarrow>
          let currentStock = stock r in
          if amt < 0 \<and> \<bar>amt\<bar> > currentStock then (Inl CannotDecreaseStock, d)
          else
            let newStockValue = currentStock + amt in
            if recordWrites e
            then (Inr newStockValue,
                  d\<lparr>records := (records d)(rid \<mapsto> r\<lparr>stock := newStockValue, Stock := None\<rparr>)\<rparr>)
            else (Inl WriteRejected, d))"

section \<open>cartService\<close>

text \<open>
  What \<open>getCartByUserId\<close> returns: the enabled cart with every item's record populated.
  A record that no longer exists populates to \<open>null\<close>, and reading \<open>record.Group\<close> then
  throws.
\<close>

record view_item =
  v_recordId :: objectId
  v_amount :: int
  v_price :: number
  d_title :: string
  d_image :: "string option"
  d_price :: number
  d_stock :: int

record cart_view =
  v_cart_id :: objectId
  v_userId :: "objectId option"
  v_userEmail :: "string option"
  v_items :: "view_item list"
  v_totalPrice :: number
  v_enabled :: bool

definition viewItem :: "db \<Rightarrow> cart_item \<Rightarrow> view_item option" where
  "viewItem d item =
     (case records d (recordId item) of
        None \<Rightarrow> None
      | Some r \<Rightarrow> Some \<lparr>v_recordId = recordId item, v_amount = amount item,
                         v_price = itemPrice item, d_title = title r,
                         d_image = imageRecord r, d_price = price r, d_stock = stock r\<rparr>)"

definition getCartByUserId :: "db \<Rightarrow> objectId \<Rightarrow> error + cart_view option" where
  "getCartByUserId d uid =
     (case findCart d uid True of
        None \<Rightarrow> Inr None
      | Some c \<Rightarrow>
          (case those (map (viewItem d) (items c)) of
             None \<Rightarrow> Inl TypeError
           | Some vs \<Rightarrow>
               let owner = findUserById d (userId c);
                   email = (case cartEmail c of
                              Some em \<Rightarrow>
                                if em = [] then (case owner of Some u \<Rightarrow> Some (userEmail u)
                                                 | None \<Rightarrow> Some em)
                                else Some em
                            | None \<Rightarrow> map_option userEmail owner)
               in Inr (Some \<lparr>v_cart_id = cart_id c, v_userId = map_option user_id owner,
                              v_userEmail = email, v_items = vs,
                              v_totalPrice = totalPrice c, v_enabled = enabled c\<rparr>)))"

text \<open>What a cart operation hands back: a cart document, or the populated view.\<close>

datatype returned = Doc cart | View "cart_view option"

definition createCart :: "env \<Rightarrow> db \<Rightarrow> objectId \<Rightarrow> (error + cart) \<times> db" where
  "createCart e d uid =
     (case findUserById d uid of
        None \<Rightarrow> (Inl UserNotFound, d)
      | Some u \<Rightarrow>
          (case findCart d uid True of
             Some existingCart \<Rightarrow> (Inr existingCart, d)
           | None \<Rightarrow>
               (case findCart d uid False of
                  Some disabledCart \<Rightarrow>
                    let c = disabledCart\<lparr>enabled := True, items := [], totalPrice := 0\<rparr>
                    in if cartWrites e then (Inr c, updateCart d c) else (Inl WriteRejected, d)
                | None \<Rightarrow>
                    let newCart = \<lparr>cart_id = nextId d, userId = uid, cartEmail = None,
                                   items = [], totalPrice = 0, enabled = True\<rparr>;
                        d1 = d\<lparr>nextId := Suc (nextId d)\<rparr>
                    in if \<not> cartWrites e then (Inl WriteRejected, d1)
                       else
                         let d2 = insertCart d1 newCart in
                         if \<not> userWrites e then (Inl WriteRejected, d2)
                         else (Inr newCart,
                               d2\<lparr>users := map (\<lambda>x. if user_id x = uid
                                                      then x\<lparr>cartId := Some (cart_id newCart)\<rparr>
                                                      else x) (users d2)\<rparr>))))"

text \<open>
  The line-item step of \<open>addItemToCart\<close>: the first item for the record is updated in
  place (amount increased, price and details refreshed), otherwise a new item is pushed.
\<close>

definition addLine :: "cart_item list \<Rightarrow> objectId \<Rightarrow> int \<Rightarrow> number \<Rightarrow> recordDetails \<Rightarrow> cart_item list" where
  "addLine xs rid amt p det =
     (case findIndex (\<lambda>item. recordId item = rid) xs of
        Some i \<Rightarrow>
          xs[i := (xs ! i)\<lparr>amount := amount (xs ! i) + amt, itemPrice := p,
                            itemDetails := Some det\<rparr>]
      | None \<Rightarrow>
          xs @ [\<lparr>recordId = rid, amount = amt, itemPrice = p, itemDetails = Some det\<rparr>])"

text \<open>
  The cart that \<open>addItemToCart\<close> works on: the user's enabled cart, else the user's
  disabled cart switched on and emptied (in memory, not yet saved), else a new cart. The
  flag tells whether the cart is new; \<open>new Cart\<close> draws an ObjectId.
\<close>

definition resolveCart :: "db \<Rightarrow> objectId \<Rightarrow> string \<Rightarrow> cart \<times> bool \<times> db" where
  "resolveCart d uid email =
     (case findCart d uid True of
        Some c0 \<Rightarrow> (c0, False, d)
      | None \<Rightarrow>
          (case findCart d uid False of
             Some disabledCart \<Rightarrow>
               (disabledCart\<lparr>enabled := True, items := [], totalPrice := 0\<rparr>, False, d)
           | None \<Rightarrow>
               (\<lparr>cart_id = nextId d, userId = uid, cartEmail = Some email,
                 items = [], totalPrice = 0, enabled = True\<rparr>,
                True, d\<lparr>nextId := Suc (nextId d)\<rparr>)))"

definition addItemToCart ::
    "env \<Rightarrow> db \<Rightarrow> objectId \<Rightarrow> objectId \<Rightarrow> int \<Rightarrow> string \<Rightarrow> (error + cart) \<times> db" where
  "addItemToCart e d uid rid amt email =
     (case records d rid of
        None \<Rightarrow> (Inl RecordNotFound, d)
      | Some r \<Rightarrow>
          let currentStock = stock r in
          if currentStock < amt then (Inl NotEnoughStock, d)
          else
            (case resolveCart d uid email of
               (c, isNew, d1) \<Rightarrow>
                 let recordPrice = orZero (price r);
                     recordTitle = (if title r = [] then ''Untitled'' else title r);
                     recordImage = (case imageRecord r of None \<Rightarrow> [] | Some s \<Rightarrow> s);
                     items' = addLine (items c) rid amt recordPrice
                                \<lparr>rd_title = recordTitle, rd_image = recordImage\<rparr>;
                     c' = c\<lparr>items := items',
                            totalPrice := round2 (num e) (reduceTotalAdd (num e) items')\<rparr>
                 in if \<not> recordWrites e then (Inl WriteRejected, d1)
                    else
                      let d2 = setStock d1 rid r (stock r - amt) in
                      if \<not> cartWrites e then (Inl WriteRejected, d2)
                      else
                        let d3 = (if isNew then insertCart d2 c' else updateCart d2 c') in
                        (case findCartById d3 (cart_id c') of
                           None \<Rightarrow> (Inl FailedToRetrieve, d3)
                         | Some result \<Rightarrow> (Inr (result\<lparr>cartEmail := None\<rparr>), d3))))"

definition removeItemFromCartByEmail ::
    "env \<Rightarrow> db \<Rightarrow> string \<Rightarrow> objectId \<Rightarrow> int \<Rightarrow> (error + cart_view option) \<times> db" where
  "removeItemFromCartByEmail e d email rid amt =
     (case findUserByEmail d email of
        None \<Rightarrow> (Inl UserNotFound, d)
      | Some u \<Rightarrow>
          (case findCart d (user_id u) True of
             None \<Rightarrow> (Inl CartNotFound, d)
           | Some c \<Rightarrow>
               (case findIndex (\<lambda>item. recordId item = rid) (items c) of
                  None \<Rightarrow> (Inl ItemNotFound, d)
                | Some itemIndex \<Rightarrow>
                    let itemToRemove = items c ! itemIndex in
                    if amount itemToRemove < amt then (Inl CannotRemoveMore, d)
                    else
                      (case (case records d rid of
                               Some r \<Rightarrow>
                                 if recordWrites e then Inr (setStock d rid r (stock r + amt))
                                 else Inl WriteRejected
                             | None \<Rightarrow> Inr d) of
                         Inl err \<Rightarrow> (Inl err, d)
                       | Inr d1 \<Rightarrow>
                           let items' =
                                 (if amount itemToRemove = amt then splice1 itemIndex (items c)
                                  else (items c)[itemIndex :=
                                         itemToRemove\<lparr>amount := amount itemToRemove - amt\<rparr>]);
                               c' = recalculateTotal (num e) (c\<lparr>items := items'\<rparr>)
                           in if \<not> cartWrites e then (Inl WriteRejected, d1)
                              else
                                let d2 = updateCart d1 c' in
                                (getCartByUserId d2 (userId c), d2)))))"

text \<open>
  \<open>removeItemFromCart\<close> removes the whole line. \<open>record.stock\<close> is defined, so
  \<open>currentStock\<close> is \<open>record.stock\<close>; the update sets \<open>stock\<close> and unsets \<open>Stock\<close>.
\<close>

definition removeItemFromCart ::
    "env \<Rightarrow> db \<Rightarrow> objectId \<Rightarrow> objectId \<Rightarrow> (error + cart_view option) \<times> db" where
  "removeItemFromCart e d uid rid =
     (case findCart d uid True of
        None \<Rightarrow> (Inl CartNotFound, d)
      | Some c \<Rightarrow>
          (case findIndex (\<lambda>item. recordId item = rid) (items c) of
             None \<Rightarrow> (Inl ItemNotFound, d)
           | Some itemIndex \<Rightarrow>
               let removedItem = items c ! itemIndex in
               (case (case records d rid of
                        Some r \<Rightarrow>
                          let currentStock = stock r in
                          if recordWrites e
                          then Inr (d\<lparr>records := (records d)(rid \<mapsto>
                                      r\<lparr>stock := currentStock + amount removedItem,
                                        Stock := None\<rparr>)\<rparr>)
                          else Inl WriteRejected
                      | None \<Rightarrow> Inr d) of
                  Inl err \<Rightarrow> (Inl err, d)
                | Inr d1 \<Rightarrow>
                    let c' = recalculateTotal (num e)
                               (c\<lparr>items := splice1 itemIndex (items c)\<rparr>)
                    in if \<not> cartWrites e then (Inl WriteRejected, d1)
                       else
                         let d2 = updateCart d1 c' in
                         (getCartByUserId d2 uid, d2))))"

text \<open>
  The loop of \<open>clearCart\<close>. Each item's record is loaded with \<open>findById\<close>; \<open>Stock\<close> is
  declared \<open>select: false\<close>, so the loaded document has no \<open>Stock\<close> property and
  \<open>record.Stock += item.amount\<close> computes \<open>undefined + amount\<close>. The statement writes the
  legacy field \<open>Stock\<close>; the field \<open>stock\<close> is not assigned. Mongoose does not cast NaN
  into a Number path, so with Mongoose the save that follows is a rejected write.
\<close>

definition jsAdd :: "jsnum option \<Rightarrow> int \<Rightarrow> jsnum" where
  "jsAdd x n = (case x of Some (Num a) \<Rightarrow> Num (a + n) | _ \<Rightarrow> NaN)"

definition loadedStock :: "record_doc \<Rightarrow> jsnum option" where
  "loadedStock r = None"

fun returnStock :: "env \<Rightarrow> db \<Rightarrow> cart_item list \<Rightarrow> error option \<times> db" where
  "returnStock e d [] = (None, d)"
| "returnStock e d (item # rest) =
     (case records d (recordId item) of
        None \<Rightarrow> returnStock e d rest
      | Some r \<Rightarrow>
          if recordWrites e
          then returnStock e
                 (d\<lparr>records := (records d)(recordId item \<mapsto>
                      r\<lparr>Stock := Some (jsAdd (loadedStock r) (amount item))\<rparr>)\<rparr>) rest
          else (Some WriteRejected, d))"

definition clearCart :: "env \<Rightarrow> db \<Rightarrow> objectId \<Rightarrow> (error + returned) \<times> db" where
  "clearCart e d uid =
     (case findCart d uid True of
        None \<Rightarrow> (case createCart e d uid of (res, d') \<Rightarrow> (map_sum id Doc res, d'))
      | Some c \<Rightarrow>
          (case returnStock e d (items c) of
             (Some err, d1) \<Rightarrow> (Inl err, d1)
           | (None, d1) \<Rightarrow>
               let c' = recalculateTotal (num e) (c\<lparr>items := []\<rparr>)
               in if \<not> cartWrites e then (Inl WriteRejected, d1)
                  else
                    let d2 = updateCart d1 c' in
                    (map_sum id View (getCartByUserId d2 uid), d2)))"

section \<open>orderService.createOrder and ordersController.createOrder\<close>

text \<open>
  The order's items keep \<open>recordId\<close>, \<open>amount\<close> and \<open>price\<close> of the cart's items; the
  \<open>recordDetails\<close> that the service also copies are not a path of \<open>OrderItemSchema\<close>.
  Both writes sit in one \<open>try\<close> whose \<open>catch\<close> throws "Failed to create order".
\<close>

definition toOrderItem :: "view_item \<Rightarrow> order_item" where
  "toOrderItem i = \<lparr>o_recordId = v_recordId i, o_amount = v_amount i, o_price = v_price i\<rparr>"

definition orderService_createOrder ::
    "env \<Rightarrow> db \<Rightarrow> objectId \<Rightarrow> string \<Rightarrow> cart_view option \<Rightarrow> string \<Rightarrow> (error + order) \<times> db" where
  "orderService_createOrder e d uid email cartArg pm =
     (case cartArg of
        None \<Rightarrow> (Inl EmptyCart, d)
      | Some cv \<Rightarrow>
          if v_items cv = [] then (Inl EmptyCart, d)
          else
            let orderItems = map toOrderItem (v_items cv);
                tot = v_totalPrice cv;
                ord = \<lparr>order_id = nextId d, o_userId = uid, o_userEmail = email,
                       o_items = orderItems, total = tot, paymentMethod = pm\<rparr>;
                d1 = d\<lparr>nextId := Suc (nextId d)\<rparr>
            in if \<not> orderWrites e then (Inl FailedToCreateOrder, d1)
               else
                 let d2 = d1\<lparr>orders := orders d1 @ [ord]\<rparr> in
                 if \<not> cartWrites e then (Inl FailedToCreateOrder, d2)
                 else (Inr ord,
                       d2\<lparr>carts := map (\<lambda>x. if cart_id x = v_cart_id cv
                                              then x\<lparr>items := [], totalPrice := 0, enabled := False\<rparr>
                                              else x) (carts d2)\<rparr>))"

datatype response =
    Created order        \<comment> \<open>201\<close>
  | BadRequest           \<comment> \<open>400\<close>
  | NotFound             \<comment> \<open>404\<close>
  | ServerError error    \<comment> \<open>500\<close>

definition ordersController_createOrder ::
    "env \<Rightarrow> db \<Rightarrow> string \<Rightarrow> string option \<Rightarrow> response \<times> db" where
  "ordersController_createOrder e d email pmArg =
     (if email = [] then (BadRequest, d)
      else
        let pm = (case pmArg of None \<Rightarrow> ''Credit Card'' | Some p \<Rightarrow> p) in
        (case findUserByEmail d email of
           None \<Rightarrow> (NotFound, d)
         | Some u \<Rightarrow>
             (case getCartByUserId d (user_id u) of
                Inl err \<Rightarrow> (ServerError err, d)
              | Inr None \<Rightarrow> (BadRequest, d)
              | Inr (Some cv) \<Rightarrow>
                  if v_items cv = [] then (BadRequest, d)
                  else
                    (case orderService_createOrder e d (user_id u) (userEmail u) (Some cv) pm of
                       (Inl err, d1) \<Rightarrow> (ServerError err, d1)
                     | (Inr ord, d1) \<Rightarrow>
                         (case clearCart e d1 (user_id u) of
                            (Inl err, d2) \<Rightarrow> (ServerError err, d2)
                          | (Inr cleared, d2) \<Rightarrow> (Created ord, d2))))))"

section \<open>Sequences of operations\<close>

datatype op =
    UpdateStock env objectId int
  | AddItem env objectId objectId int string
  | RemoveItemByEmail env string objectId int
  | RemoveItem env objectId objectId
  | Clear env objectId

fun step :: "db \<Rightarrow> op \<Rightarrow> db" where
  "step d (UpdateStock e rid amt) = snd (updateStock e d rid amt)"
| "step d (AddItem e uid rid amt email) = snd (addItemToCart e d uid rid amt email)"
| "step d (RemoveItemByEmail e email rid amt) = snd (removeItemFromCartByEmail e d email rid amt)"
| "step d (RemoveItem e uid rid) = snd (removeItemFromCart e d uid rid)"
| "step d (Clear e uid) = snd (clearCart e d uid)"

definition run :: "db \<Rightarrow> op list \<Rightarrow> db" where
  "run d ops = foldl step d ops"

section \<open>Invariants and derived shapes\<close>

text \<open>Stock is never negative; every stored line item has an amount of at least 1
  (the \<open>min: 1\<close> of \<open>CartItemSchema\<close>).\<close>

definition stock_nonneg :: "db \<Rightarrow> bool" where
  "stock_nonneg d = (\<forall>rid r. records d rid = Some r \<longrightarrow> 0 \<le> stock r)"

definition amounts_positive :: "db \<Rightarrow> bool" where
  "amounts_positive d = (\<forall>c \<in> set (carts d). \<forall>item \<in> set (items c). 1 \<le> amount item)"

text \<open>The controllers pass on only positive amounts (\<open>amount <= 0\<close> is answered with 400).\<close>

fun valid_op :: "op \<Rightarrow> bool" where
  "valid_op (AddItem e uid rid amt email) = (0 < amt)"
| "valid_op (RemoveItemByEmail e email rid amt) = (0 < amt)"
| "valid_op _ = True"

text \<open>The sum the specification speaks of, \<open>\<Sum>(item.amount * item.price)\<close>, taken exactly
  over the values of the stored numbers.\<close>

fun ratOf :: "number \<Rightarrow> rat" where
  "ratOf (Finite x) = x"
| "ratOf x = 0"

definition lineSum :: "cart_item list \<Rightarrow> rat" where
  "lineSum xs = (\<Sum>item\<leftarrow>xs. of_int (amount item) * ratOf (itemPrice item))"

text \<open>
  What a cart's total is after an operation has written the cart: the operation's own
  reduce over the cart's lines in the arithmetic of the call. \<open>updateStock\<close> writes no
  cart.
\<close>

fun total_recomputed :: "op \<Rightarrow> cart \<Rightarrow> bool" where
  "total_recomputed (AddItem e uid rid amt email) c =
     (totalPrice c = round2 (num e) (reduceTotalAdd (num e) (items c)))"
| "total_recomputed (RemoveItemByEmail e email rid amt) c =
     (totalPrice c = nanToZero (reduceTotal (num e) (items c)))"
| "total_recomputed (RemoveItem e uid rid) c =
     (totalPrice c = nanToZero (reduceTotal (num e) (items c)))"
| "total_recomputed (Clear e uid) c =
     (totalPrice c = nanToZero (reduceTotal (num e) (items c)))"
| "total_recomputed (UpdateStock e rid amt) c = False"

text \<open>The order line the specification expects for a cart line: record, amount and
  captured price.\<close>

definition snapshot :: "cart_item \<Rightarrow> order_item" where
  "snapshot item = \<lparr>o_recordId = recordId item, o_amount = amount item, o_price = itemPrice item\<rparr>"

text \<open>The cart that \<open>addItemToCart\<close> saves, and the cart that
  \<open>removeItemFromCartByEmail\<close> saves.\<close>

definition addedCart :: "arith \<Rightarrow> cart \<Rightarrow> record_doc \<Rightarrow> objectId \<Rightarrow> int \<Rightarrow> cart" where
  "addedCart a c r rid amt =
     (let items' = addLine (items c) rid amt (orZero (price r))
                     \<lparr>rd_title = (if title r = [] then ''Untitled'' else title r),
                       rd_image = (case imageRecord r of None \<Rightarrow> [] | Some s \<Rightarrow> s)\<rparr>
      in c\<lparr>items := items', totalPrice := round2 a (reduceTotalAdd a items')\<rparr>)"

definition removedCart :: "arith \<Rightarrow> cart \<Rightarrow> nat \<Rightarrow> int \<Rightarrow> cart" where
  "removedCart a c i amt =
     recalculateTotal a
       (c\<lparr>items := (if amount (items c ! i) = amt then splice1 i (items c)
                     else (items c)[i := (items c ! i)\<lparr>amount := amount (items c ! i) - amt\<rparr>])\<rparr>)"

text \<open>The cart that \<open>removeItemFromCart\<close> saves, and the store after its stock update.\<close>

definition wholeLineRemoved :: "arith \<Rightarrow> cart \<Rightarrow> nat \<Rightarrow> cart" where
  "wholeLineRemoved a c i = recalculateTotal a (c\<lparr>items := splice1 i (items c)\<rparr>)"

definition stockReturned :: "db \<Rightarrow> objectId \<Rightarrow> record_doc \<Rightarrow> int \<Rightarrow> db" where
  "stockReturned d rid r n = d\<lparr>records := (records d)(rid \<mapsto> r\<lparr>stock := stock r + n, Stock := None\<rparr>)\<rparr>"

text \<open>The reset that re-enables a disabled cart.\<close>

definition reenabled :: "cart \<Rightarrow> cart" where
  "reenabled c = c\<lparr>enabled := True, items := [], totalPrice := 0\<rparr>"

section \<open>Example stores\<close>

text \<open>A store whose cart collection rejects writes while the records accept them.\<close>

definition carts_down :: env where
  "carts_down = \<lparr>recordWrites = True, cartWrites = False, orderWrites = True, userWrites = True,
                  num = binary64\<rparr>"

text \<open>A store whose record collection rejects writes.\<close>

definition records_down :: env where
  "records_down = \<lparr>recordWrites = False, cartWrites = True, orderWrites = True, userWrites = True,
                    num = binary64\<rparr>"

definition recP :: record_doc where
  "recP = \<lparr>title = ''Kind of Blue'', imageRecord = None, price = Finite 10, stock = 5,
            Stock = None\<rparr>"

definition db0 :: db where
  "db0 = \<lparr>users = [\<lparr>user_id = 1, userEmail = ''u1@shop'', cartId = None\<rparr>,
                    \<lparr>user_id = 2, userEmail = ''u2@shop'', cartId = None\<rparr>],
          records = [10 \<mapsto> recP],
          carts = [], orders = [], nextId = 100\<rparr>"

text \<open>User 1 holds two units of record 10 at price 10; three units are left in stock.\<close>

definition cart1 :: cart where
  "cart1 = \<lparr>cart_id = 50, userId = 1, cartEmail = None,
            items = [\<lparr>recordId = 10, amount = 2, itemPrice = Finite 10, itemDetails = None\<rparr>],
            totalPrice = Finite 20, enabled = True\<rparr>"

definition db1 :: db where
  "db1 = db0\<lparr>records := [10 \<mapsto> recP\<lparr>stock := 3\<rparr>], carts := [cart1]\<rparr>"

text \<open>User 1's cart, disabled.\<close>

definition db1_disabled :: db where
  "db1_disabled = db1\<lparr>carts := [cart1\<lparr>enabled := False\<rparr>]\<rparr>"

text \<open>User 1 holds one unit each of records 10 and 11 at 29.99; the cart's total is 59.98.
  The doubles written 29.99 and 59.98 are \<open>8441434551552573 / 2 ^ 48\<close> and
  \<open>8441434551552573 / 2 ^ 47\<close>.\<close>

definition cart2 :: cart where
  "cart2 = \<lparr>cart_id = 50, userId = 1, cartEmail = None,
            items = [\<lparr>recordId = 10, amount = 1, itemPrice = Finite (8441434551552573 / 2 ^ 48), itemDetails = None\<rparr>,
                     \<lparr>recordId = 11, amount = 1, itemPrice = Finite (8441434551552573 / 2 ^ 48), itemDetails = None\<rparr>],
            totalPrice = Finite (8441434551552573 / 2 ^ 47), enabled = True\<rparr>"

definition db2 :: db where
  "db2 = db0\<lparr>records := [10 \<mapsto> recP\<lparr>price := Finite (8441434551552573 / 2 ^ 48), stock := 4\<rparr>,
                         11 \<mapsto> \<lparr>title = ''Blue Train'', imageRecord = None, price = Finite (8441434551552573 / 2 ^ 48),
                                 stock = 7, Stock = None\<rparr>],
             carts := [cart2]\<rparr>"

text \<open>The order of the example conversion.\<close>

definition order2 :: order where
  "order2 = \<lparr>order_id = 100, o_userId = 1, o_userEmail = ''u1@shop'',
             o_items = [\<lparr>o_recordId = 10, o_amount = 1, o_price = Finite (8441434551552573 / 2 ^ 48)\<rparr>,
                        \<lparr>o_recordId = 11, o_amount = 1, o_price = Finite (8441434551552573 / 2 ^ 48)\<rparr>],
             total = Finite (8441434551552573 / 2 ^ 47), paymentMethod = ''Credit Card''\<rparr>"

text \<open>Record 12 costs 0.125.\<close>

definition db3 :: db where
  "db3 = db0\<lparr>records := [12 \<mapsto> recP\<lparr>price := Finite (1 / 8)\<rparr>]\<rparr>"

text \<open>The carts of the example.\<close>

definition cart3 :: cart where
  "cart3 = \<lparr>cart_id = 100, userId = 1, cartEmail = Some ''u1@shop'',
            items = [\<lparr>recordId = 12, amount = 1, itemPrice = Finite (1 / 8),
                      itemDetails = Some \<lparr>rd_title = ''Kind of Blue'', rd_image = []\<rparr>\<rparr>],
            totalPrice = Finite (1170935903116329 / 2 ^ 53), enabled = True\<rparr>"

text \<open>Record 13 costs 1.005, the double \<open>1131529406376837 / 2 ^ 50\<close>; the cart after one
  unit of it is added.\<close>

definition db4 :: db where
  "db4 = db0\<lparr>records := [13 \<mapsto> recP\<lparr>price := Finite (1131529406376837 / 2 ^ 50)\<rparr>]\<rparr>"

definition cart4 :: cart where
  "cart4 = \<lparr>cart_id = 100, userId = 1, cartEmail = Some ''u1@shop'',
            items = [\<lparr>recordId = 13, amount = 1, itemPrice = Finite (1131529406376837 / 2 ^ 50),
                      itemDetails = Some \<lparr>rd_title = ''Kind of Blue'', rd_image = []\<rparr>\<rparr>],
            totalPrice = Finite 1, enabled = True\<rparr>"

text \<open>User 1 holds lines at 0.1 and 0.2 (the doubles \<open>3602879701896397 / 2 ^ 55\<close> and
  \<open>3602879701896397 / 2 ^ 54\<close>) and two units of record 10; the cart after the line of
  record 10 is removed.\<close>

definition cart5 :: cart where
  "cart5 = \<lparr>cart_id = 50, userId = 1, cartEmail = None,
            items = [\<lparr>recordId = 14, amount = 1, itemPrice = Finite (3602879701896397 / 2 ^ 55),
                      itemDetails = None\<rparr>,
                     \<lparr>recordId = 15, amount = 1, itemPrice = Finite (3602879701896397 / 2 ^ 54),
                      itemDetails = None\<rparr>,
                     \<lparr>recordId = 10, amount = 2, itemPrice = Finite 10, itemDetails = None\<rparr>],
            totalPrice = Finite (203 / 10), enabled = True\<rparr>"

definition db5 :: db where
  "db5 = db0\<lparr>carts := [cart5]\<rparr>"

definition cart6 :: cart where
  "cart6 = \<lparr>cart_id = 50, userId = 1, cartEmail = None,
            items = [\<lparr>recordId = 14, amount = 1, itemPrice = Finite (3602879701896397 / 2 ^ 55),
                      itemDetails = None\<rparr>,
                     \<lparr>recordId = 15, amount = 1, itemPrice = Finite (3602879701896397 / 2 ^ 54),
                      itemDetails = None\<rparr>],
            totalPrice = Finite (1351079888211149 / 2 ^ 52), enabled = True\<rparr>"

text \<open>The scenario of the specification on record 10 (stock 5), continued until the
  stock is used up.\<close>

definition scenario :: "op list" where
  "scenario = [AddItem all_ok 1 10 3 ''u1@shop'', AddItem all_ok 2 10 3 ''u2@shop'',
               AddItem all_ok 2 10 2 ''u2@shop'', RemoveItemByEmail all_ok ''u1@shop'' 10 1,
               UpdateStock all_ok 10 (- 1), UpdateStock all_ok 10 (- 1)]"

section \<open>Auxiliary facts\<close>

subsection \<open>Evaluating the arithmetic\<close>

lemma floor_numeral_div [simp]:
  "\<lfloor>numeral a / numeral b :: rat\<rfloor> = numeral a div numeral b"
  using floor_divide_of_int_eq [of "numeral a" "numeral b", where ?'a = rat] by simp

lemma floor_neg_numeral_div [simp]:
  "\<lfloor>- (numeral a / numeral b) :: rat\<rfloor> = - numeral a div numeral b"
  using floor_divide_of_int_eq [of "- numeral a" "numeral b", where ?'a = rat] by simp

lemmas b64_eval =
  binary64_def b64_times_def b64_divide_def fl_def expo_def roundEven_def isZero_def isInf_def
  signedZero_def signedInf_def orZero_def nanToZero_def zero_number_def eval_nat_numeral Let_def

subsection \<open>The exponent search\<close>

text \<open>
  The bisection finds the binade of its argument: for every magnitude between the smallest
  subnormal's half and the overflow threshold, \<open>expo\<close> is the exponent \<open>e\<close> with
  \<open>2 ^ e \<le> \<bar>x\<bar> < 2 ^ (e + 1)\<close>.
\<close>

lemma bsearch_bounds:
  assumes "2 powi lo \<le> x" and "x < 2 powi hi" and "lo < hi" and "hi - lo \<le> 2 ^ n"
  shows "2 powi (bsearch n lo hi x) \<le> x \<and> x < 2 powi (bsearch n lo hi x + 1)"
  using assms
proof (induction n arbitrary: lo hi)
  case 0
  then have "hi = lo + 1" by simp
  then show ?case using 0 by simp
next
  case (Suc n)
  let ?mid = "(lo + hi) div 2"
  show ?case
  proof (cases "2 powi ?mid \<le> x")
    case True
    have "?mid < hi" using Suc.prems(3) by linarith
    moreover have "hi - ?mid \<le> 2 ^ n" using Suc.prems(4) by (simp; linarith?)
    ultimately show ?thesis using Suc.IH [of ?mid hi] True Suc.prems(2) by (simp add: Let_def)
  next
    case False
    then have "lo \<noteq> ?mid" using Suc.prems(1) by auto
    then have "lo < ?mid" using Suc.prems(3) by linarith
    moreover have "?mid - lo \<le> 2 ^ n" using Suc.prems(4) by (simp; linarith?)
    ultimately show ?thesis using Suc.IH [of lo ?mid] False Suc.prems(1) by (simp add: Let_def)
  qed
qed

lemma expo_bounds:
  assumes "2 powi (- 1075) \<le> \<bar>x\<bar>" and "\<bar>x\<bar> < 2 ^ 1024"
  shows "2 powi (expo x) \<le> \<bar>x\<bar> \<and> \<bar>x\<bar> < 2 powi (expo x + 1)"
  unfolding expo_def
  using assms by (intro bsearch_bounds) simp_all

subsection \<open>Lists\<close>

lemma findIndex_Some: "findIndex P xs = Some i \<Longrightarrow> i < length xs \<and> P (xs ! i)"
  by (induction xs arbitrary: i) (auto split: if_splits)

lemma find_Some_mem: "find P xs = Some x \<Longrightarrow> x \<in> set xs \<and> P x"
  by (induction xs) (auto split: if_splits)

lemma find_mem_Some: "x \<in> set xs \<Longrightarrow> P x \<Longrightarrow> \<exists>y. find P xs = Some y"
  by (cases "find P xs") (auto simp: find_None_iff)

lemma set_splice1: "set (splice1 i xs) \<subseteq> set xs"
  unfolding splice1_def by (auto dest: in_set_takeD in_set_dropD)

lemma splice1_last [simp]: "splice1 (length xs) (xs @ [y]) = xs"
  by (simp add: splice1_def)

lemma findIndex_append_new:
  "findIndex P xs = None \<Longrightarrow> P y \<Longrightarrow> findIndex P (xs @ [y]) = Some (length xs)"
  by (induction xs) (auto split: if_splits)

lemma find_replace_same:
  assumes "find P xs = Some c" and "P c'"
  shows "find P (map (\<lambda>x. if k x = k c then c' else x) xs) = Some c'"
  using assms by (induction xs) (auto split: if_splits)

lemma find_replace_other:
  assumes "find P xs = None" and "find Q xs = Some c" and "P c'"
  shows "find P (map (\<lambda>x. if k x = k c then c' else x) xs) = Some c'"
  using assms by (induction xs) (auto split: if_splits)

lemma find_append_new:
  assumes "find P xs = None" and "P c'"
  shows "find P (xs @ [c']) = Some c'"
  using assms by (induction xs) (auto split: if_splits)

subsection \<open>Projections of the store\<close>

lemma setStock_simps [simp]:
  "carts (setStock d rid r v) = carts d" "users (setStock d rid r v) = users d"
  "records (setStock d rid r v) = (records d)(rid \<mapsto> r\<lparr>stock := v\<rparr>)"
  "orders (setStock d rid r v) = orders d"
  by (simp_all add: setStock_def)

lemma updateCart_simps [simp]:
  "records (updateCart d c) = records d" "users (updateCart d c) = users d"
  "orders (updateCart d c) = orders d"
  by (simp_all add: updateCart_def)

lemma insertCart_simps [simp]:
  "records (insertCart d c) = records d" "users (insertCart d c) = users d"
  "orders (insertCart d c) = orders d" "carts (insertCart d c) = carts d @ [c]"
  by (simp_all add: insertCart_def)

lemma stockReturned_simps [simp]:
  "carts (stockReturned d rid r n) = carts d" "users (stockReturned d rid r n) = users d"
  "records (stockReturned d rid r n) = (records d)(rid \<mapsto> r\<lparr>stock := stock r + n, Stock := None\<rparr>)"
  "orders (stockReturned d rid r n) = orders d"
  by (simp_all add: stockReturned_def)

lemma findCart_updateCart_same:
  assumes "findCart d uid en = Some c" and "userId c' = uid" and "enabled c' = en"
    and "cart_id c' = cart_id c"
  shows "findCart (updateCart d c') uid en = Some c'"
  using assms find_replace_same [of "\<lambda>c. userId c = uid \<and> enabled c = en" "carts d" c c' cart_id]
  by (simp add: findCart_def updateCart_def)

lemma findCart_updateCart_other:
  assumes "findCart d uid en = None" and "findCart d uid en' = Some c"
    and "userId c' = uid" and "enabled c' = en" and "cart_id c' = cart_id c"
  shows "findCart (updateCart d c') uid en = Some c'"
  using assms
    find_replace_other [of "\<lambda>c. userId c = uid \<and> enabled c = en" "carts d"
      "\<lambda>c. userId c = uid \<and> enabled c = en'" c c' cart_id]
  by (simp add: findCart_def updateCart_def)

subsection \<open>The result of each operation\<close>

lemma updateStock_carts [simp]: "carts (snd (updateStock e d rid amt)) = carts d"
  by (simp add: updateStock_def Let_def split: option.splits)

lemma resolveCart_frame:
  assumes "resolveCart d uid email = (c, isNew, d1)"
  shows "records d1 = records d" "carts d1 = carts d" "users d1 = users d" "orders d1 = orders d"
  using assms by (auto simp: resolveCart_def split: option.splits)

lemma resolveCart_items:
  assumes "resolveCart d uid email = (c, isNew, d1)"
  shows "items c = [] \<or> c \<in> set (carts d)"
  using assms by (auto simp: resolveCart_def findCart_def split: option.splits dest: find_Some_mem)

lemma resolveCart_props:
  assumes "resolveCart d uid email = (c, isNew, d1)"
  shows "userId c = uid" "enabled c"
    "findCart d uid True = None \<Longrightarrow> items c = []"
    "findCart d uid True = Some c0 \<Longrightarrow> c = c0"
  using assms
  by (auto simp: resolveCart_def findCart_def split: option.splits dest: find_Some_mem)

lemma resolveCart_saved:
  assumes "resolveCart d uid email = (c, isNew, d1)"
    and "userId c' = uid" and "enabled c'" and "cart_id c' = cart_id c" and "carts dx = carts d"
  shows "findCart (if isNew then insertCart dx c' else updateCart dx c') uid True = Some c'"
proof (cases "findCart d uid True")
  case (Some c0)
  then have "isNew = False" "c = c0" using assms(1) by (auto simp: resolveCart_def)
  moreover have "findCart dx uid True = Some c0" using Some assms(5) by (simp add: findCart_def)
  ultimately show ?thesis using assms(2-4) by (simp add: findCart_updateCart_same)
next
  case None
  note en = None
  show ?thesis
  proof (cases "findCart d uid False")
    case (Some dc)
    then have "isNew = False" "cart_id c = cart_id dc"
      using assms(1) en by (auto simp: resolveCart_def)
    moreover have "findCart dx uid True = None" "findCart dx uid False = Some dc"
      using en Some assms(5) by (simp_all add: findCart_def)
    ultimately show ?thesis using assms(2-4)
      by (simp add: findCart_updateCart_other [where en' = False and c = dc])
  next
    case None
    then have "isNew = True" using assms(1) en by (auto simp: resolveCart_def)
    moreover have "find (\<lambda>c. userId c = uid \<and> enabled c = True) (carts dx @ [c']) = Some c'"
      using en assms(2,3,5) by (intro find_append_new) (simp_all add: findCart_def)
    ultimately show ?thesis by (simp add: findCart_def)
  qed
qed

lemma addItemToCart_snd:
  assumes "records d rid = Some r" "\<not> stock r < amt" "resolveCart d uid email = (c, isNew, d1)"
  shows "snd (addItemToCart e d uid rid amt email) =
     (if \<not> recordWrites e then d1
      else if \<not> cartWrites e then setStock d1 rid r (stock r - amt)
      else if isNew then insertCart (setStock d1 rid r (stock r - amt)) (addedCart (num e) c r rid amt)
      else updateCart (setStock d1 rid r (stock r - amt)) (addedCart (num e) c r rid amt))"
  using assms
  by (simp add: addItemToCart_def addedCart_def Let_def split: option.splits)

lemma addItemToCart_ok:
  assumes "records d rid = Some r" "\<not> stock r < amt" "resolveCart d uid email = (c, isNew, d1)"
  shows "addItemToCart e d uid rid amt email =
     (if \<not> recordWrites e then (Inl WriteRejected, d1)
      else if \<not> cartWrites e then (Inl WriteRejected, setStock d1 rid r (stock r - amt))
      else
        let d3 = (if isNew
                  then insertCart (setStock d1 rid r (stock r - amt)) (addedCart (num e) c r rid amt)
                  else updateCart (setStock d1 rid r (stock r - amt)) (addedCart (num e) c r rid amt))
        in (case findCartById d3 (cart_id c) of
              None \<Rightarrow> (Inl FailedToRetrieve, d3)
            | Some result \<Rightarrow> (Inr (result\<lparr>cartEmail := None\<rparr>), d3)))"
  using assms
  by (simp add: addItemToCart_def addedCart_def Let_def split: option.splits)

lemma removeItemFromCartByEmail_ok:
  assumes "findUserByEmail d email = Some u"
    and "findCart d (user_id u) True = Some c"
    and "findIndex (\<lambda>item. recordId item = rid) (items c) = Some i"
    and "\<not> amount (items c ! i) < amt"
  shows "removeItemFromCartByEmail e d email rid amt =
     (case records d rid of
        Some r \<Rightarrow>
          if \<not> recordWrites e then (Inl WriteRejected, d)
          else if \<not> cartWrites e then (Inl WriteRejected, setStock d rid r (stock r + amt))
          else (getCartByUserId (updateCart (setStock d rid r (stock r + amt)) (removedCart (num e) c i amt))
                  (userId c),
                updateCart (setStock d rid r (stock r + amt)) (removedCart (num e) c i amt))
      | None \<Rightarrow>
          if \<not> cartWrites e then (Inl WriteRejected, d)
          else (getCartByUserId (updateCart d (removedCart (num e) c i amt)) (userId c),
                updateCart d (removedCart (num e) c i amt)))"
  using assms
  by (simp add: removeItemFromCartByEmail_def removedCart_def Let_def split: option.splits)

lemma removeItemFromCartByEmail_cases:
  obtains (early) "snd (removeItemFromCartByEmail e d email rid amt) = d"
  | (late) u c i where "findUserByEmail d email = Some u" "findCart d (user_id u) True = Some c"
      "findIndex (\<lambda>item. recordId item = rid) (items c) = Some i"
      "\<not> amount (items c ! i) < amt"
proof (cases "findUserByEmail d email")
  case None
  then show ?thesis using early by (simp add: removeItemFromCartByEmail_def)
next
  case (Some u)
  note u = Some
  show ?thesis
  proof (cases "findCart d (user_id u) True")
    case None
    then show ?thesis using early u by (simp add: removeItemFromCartByEmail_def)
  next
    case (Some c)
    note c = Some
    show ?thesis
    proof (cases "findIndex (\<lambda>item. recordId item = rid) (items c)")
      case None
      then show ?thesis using early u c by (simp add: removeItemFromCartByEmail_def)
    next
      case (Some i)
      show ?thesis
      proof (cases "amount (items c ! i) < amt")
        case True
        then show ?thesis using early u c Some by (simp add: removeItemFromCartByEmail_def)
      next
        case False
        then show ?thesis using late u c Some by blast
      qed
    qed
  qed
qed

lemma removeItemFromCart_ok:
  assumes "findCart d uid True = Some c"
    and "findIndex (\<lambda>item. recordId item = rid) (items c) = Some i"
  shows "removeItemFromCart e d uid rid =
     (case records d rid of
        Some r \<Rightarrow>
          if \<not> recordWrites e then (Inl WriteRejected, d)
          else if \<not> cartWrites e
          then (Inl WriteRejected, stockReturned d rid r (amount (items c ! i)))
          else (getCartByUserId
                  (updateCart (stockReturned d rid r (amount (items c ! i))) (wholeLineRemoved (num e) c i)) uid,
                updateCart (stockReturned d rid r (amount (items c ! i))) (wholeLineRemoved (num e) c i))
      | None \<Rightarrow>
          if \<not> cartWrites e then (Inl WriteRejected, d)
          else (getCartByUserId (updateCart d (wholeLineRemoved (num e) c i)) uid,
                updateCart d (wholeLineRemoved (num e) c i)))"
  using assms
  by (simp add: removeItemFromCart_def wholeLineRemoved_def stockReturned_def Let_def
           split: option.splits)

lemma removeItemFromCart_cases:
  obtains (early) "snd (removeItemFromCart e d uid rid) = d"
  | (late) c i where "findCart d uid True = Some c"
      "findIndex (\<lambda>item. recordId item = rid) (items c) = Some i"
proof (cases "findCart d uid True")
  case None
  then show ?thesis using early by (simp add: removeItemFromCart_def)
next
  case (Some c)
  show ?thesis
  proof (cases "findIndex (\<lambda>item. recordId item = rid) (items c)")
    case None
    then show ?thesis using early Some by (simp add: removeItemFromCart_def)
  next
    case (Some i)
    then show ?thesis using late \<open>findCart d uid True = Some c\<close> by blast
  qed
qed

lemma createCart_records [simp]: "records (snd (createCart e d uid)) = records d"
  by (simp add: createCart_def Let_def split: option.splits)

lemma createCart_carts:
  assumes "c \<in> set (carts (snd (createCart e d uid)))"
  shows "c \<in> set (carts d) \<or> (items c = [] \<and> totalPrice c = 0 \<and> enabled c)"
  using assms
  by (auto simp: createCart_def Let_def updateCart_def split: option.splits if_splits)

lemma createCart_fresh:
  assumes "findUserById d uid = Some u" and "findCart d uid True = None"
    and "cartWrites e" and "userWrites e"
  shows "\<exists>c. fst (createCart e d uid) = Inr c \<and> items c = [] \<and> totalPrice c = 0 \<and>
             enabled c \<and> userId c = uid \<and>
             findCart (snd (createCart e d uid)) uid True = Some c \<and>
             (case findCart d uid False of
                Some dc \<Rightarrow> c = reenabled dc \<and> snd (createCart e d uid) = updateCart d c
              | None \<Rightarrow> carts (snd (createCart e d uid)) = carts d @ [c])"
proof (cases "findCart d uid False")
  case None
  let ?c = "\<lparr>cart_id = nextId d, userId = uid, cartEmail = None, items = [], totalPrice = 0,
             enabled = True\<rparr>"
  have "find (\<lambda>c. userId c = uid \<and> enabled c = True) (carts d @ [?c]) = Some ?c"
    using assms(2) by (intro find_append_new) (simp_all add: findCart_def)
  then show ?thesis using assms None
    by (simp add: createCart_def Let_def findCart_def)
next
  case (Some dc)
  have dc: "userId dc = uid" using Some by (auto simp: findCart_def dest: find_Some_mem)
  have "findCart (updateCart d (reenabled dc)) uid True = Some (reenabled dc)"
    using assms(2) Some dc by (intro findCart_updateCart_other) (simp_all add: reenabled_def)
  then show ?thesis using assms Some dc
    by (simp add: createCart_def Let_def reenabled_def)
qed

lemma createCart_Inr:
  assumes "fst (createCart e d uid) = Inr c" and "findCart d uid True = None"
  shows "findCart (snd (createCart e d uid)) uid True = Some c \<and> items c = [] \<and>
         totalPrice c = 0"
proof (cases "findUserById d uid")
  case None
  then show ?thesis using assms by (simp add: createCart_def)
next
  case (Some u)
  have w: "cartWrites e"
    using assms Some by (auto simp: createCart_def Let_def split: option.splits if_splits)
  have w': "findCart d uid False = None \<Longrightarrow> userWrites e"
    using assms Some by (auto simp: createCart_def Let_def split: option.splits if_splits)
  obtain c' where c': "fst (createCart e d uid) = Inr c'" "items c' = []" "totalPrice c' = 0"
      "findCart (snd (createCart e d uid)) uid True = Some c'"
  proof (cases "findCart d uid False")
    case None
    then show ?thesis using createCart_fresh [OF Some assms(2) w w'] that by blast
  next
    case (Some dc)
    note dc = Some
    have dcu: "userId dc = uid" using Some by (auto simp: findCart_def dest: find_Some_mem)
    have "findCart (updateCart d (reenabled dc)) uid True = Some (reenabled dc)"
      using assms(2) dc dcu by (intro findCart_updateCart_other) (simp_all add: reenabled_def)
    then show ?thesis using that [of "reenabled dc"] assms(2) dc w \<open>findUserById d uid = Some u\<close>
      by (simp add: createCart_def Let_def reenabled_def)
  qed
  then show ?thesis using assms(1) by simp
qed

lemma returnStock_frame [simp]:
  "carts (snd (returnStock e d xs)) = carts d"
  "users (snd (returnStock e d xs)) = users d"
  "orders (snd (returnStock e d xs)) = orders d"
  by (induction xs arbitrary: d) (auto split: option.splits)

lemma returnStock_stock:
  "map_option stock (records (snd (returnStock e d xs)) rid) = map_option stock (records d rid)"
  by (induction xs arbitrary: d) (auto split: option.splits)

lemma recalculateTotal_empty [simp]:
  "recalculateTotal a (c\<lparr>items := []\<rparr>) = c\<lparr>items := [], totalPrice := 0\<rparr>"
  by (simp add: recalculateTotal_def reduceTotal_def nanToZero_def zero_number_def)

lemma clearCart_enabled:
  assumes "findCart d uid True = Some c"
  shows "clearCart e d uid =
     (case returnStock e d (items c) of
        (Some err, d1) \<Rightarrow> (Inl err, d1)
      | (None, d1) \<Rightarrow>
          if \<not> cartWrites e then (Inl WriteRejected, d1)
          else (map_sum id View
                  (getCartByUserId (updateCart d1 (c\<lparr>items := [], totalPrice := 0\<rparr>)) uid),
                updateCart d1 (c\<lparr>items := [], totalPrice := 0\<rparr>)))"
  using assms by (simp add: clearCart_def Let_def split: prod.splits option.splits)

lemma clearCart_none:
  assumes "findCart d uid True = None"
  shows "clearCart e d uid = (map_sum id Doc (fst (createCart e d uid)), snd (createCart e d uid))"
  using assms by (simp add: clearCart_def split: prod.splits)

lemma clearCart_stock:
  "map_option stock (records (snd (clearCart e d uid)) rid) = map_option stock (records d rid)"
proof (cases "findCart d uid True")
  case None
  then show ?thesis by (simp add: clearCart_none)
next
  case (Some c)
  obtain err d1 where rs: "returnStock e d (items c) = (err, d1)"
    by (cases "returnStock e d (items c)") auto
  have "map_option stock (records d1 rid) = map_option stock (records d rid)"
    using returnStock_stock [of e d "items c" rid] rs by simp
  then show ?thesis
    unfolding clearCart_enabled [OF Some] rs by (cases err) auto
qed

lemma clearCart_carts:
  assumes "c' \<in> set (carts (snd (clearCart e d uid)))"
  shows "c' \<in> set (carts d) \<or> (items c' = [] \<and> totalPrice c' = 0)"
proof (cases "findCart d uid True")
  case None
  then show ?thesis using assms createCart_carts [of c' e d uid] by (auto simp: clearCart_none)
next
  case (Some c)
  obtain err d1 where rs: "returnStock e d (items c) = (err, d1)"
    by (cases "returnStock e d (items c)") auto
  have cd: "carts d1 = carts d" using returnStock_frame(1) [of e d "items c"] rs by simp
  show ?thesis
    using assms cd unfolding clearCart_enabled [OF Some] rs
    by (cases err) (auto simp: updateCart_def split: if_splits)
qed

lemma clearCart_Inr:
  assumes "clearCart e d uid = (Inr x, d')"
  shows "\<exists>c. findCart d' uid True = Some c \<and> items c = [] \<and> totalPrice c = 0"
proof (cases "findCart d uid True")
  case None
  from assms obtain c where "fst (createCart e d uid) = Inr c" "d' = snd (createCart e d uid)"
    unfolding clearCart_none [OF None] by (cases "fst (createCart e d uid)") auto
  then show ?thesis using createCart_Inr [OF _ None] by blast
next
  case (Some c)
  obtain err d1 where rs: "returnStock e d (items c) = (err, d1)"
    by (cases "returnStock e d (items c)") auto
  have cd: "carts d1 = carts d" using returnStock_frame(1) [of e d "items c"] rs by simp
  have d': "d' = updateCart d1 (c\<lparr>items := [], totalPrice := 0\<rparr>)"
    using assms unfolding clearCart_enabled [OF Some] rs
    by (cases err) (auto split: if_splits)
  have cu: "userId c = uid" "enabled c = True"
    using Some by (auto simp: findCart_def dest: find_Some_mem)
  have "findCart d1 uid True = Some c" using Some cd by (simp add: findCart_def)
  then have "findCart d' uid True = Some (c\<lparr>items := [], totalPrice := 0\<rparr>)"
    unfolding d' using cu by (intro findCart_updateCart_same) simp_all
  then show ?thesis by simp
qed

lemma those_viewItem:
  "those (map (viewItem d) xs) = Some vs \<Longrightarrow> map toOrderItem vs = map snapshot xs"
proof (induction xs arbitrary: vs)
  case Nil
  then show ?case by simp
next
  case (Cons x xs)
  then show ?case
    by (auto simp: viewItem_def toOrderItem_def snapshot_def split: option.splits)
qed

lemma getCartByUserId_Some:
  assumes "getCartByUserId d uid = Inr (Some cv)"
  shows "\<exists>src. findCart d uid True = Some src \<and> v_cart_id cv = cart_id src \<and>
               v_totalPrice cv = totalPrice src \<and>
               map toOrderItem (v_items cv) = map snapshot (items src)"
  using assms
  by (auto simp: getCartByUserId_def Let_def split: option.splits dest: those_viewItem)

lemma orderService_createOrder_Inr:
  assumes "orderService_createOrder e d uid email (Some cv) pm = (Inr ord, d1)"
  shows "total ord = v_totalPrice cv" "o_items ord = map toOrderItem (v_items cv)"
    "records d1 = records d" "users d1 = users d"
  using assms
  by (auto simp: orderService_createOrder_def Let_def split: if_splits)

lemma orderService_createOrder_carts:
  assumes "orderService_createOrder e d uid email (Some cv) pm = (Inr ord, d1)"
  shows "carts d1 = map (\<lambda>x. if cart_id x = v_cart_id cv
                               then x\<lparr>items := [], totalPrice := 0, enabled := False\<rparr>
                               else x) (carts d)"
  using assms
  by (auto simp: orderService_createOrder_def Let_def split: if_splits)

lemma createCart_Inr_id:
  assumes "fst (createCart e d uid) = Inr c" and "findCart d uid True = None"
    and "z \<in> set (carts d)" and "userId z = uid"
    and "\<forall>y \<in> set (carts d). userId y = uid \<longrightarrow> cart_id y = k"
  shows "cart_id c = k"
proof -
  have "\<not> enabled z"
    using assms(2,3,4) by (auto simp: findCart_def find_None_iff)
  then obtain dc where dc: "findCart d uid False = Some dc"
    using find_mem_Some [of z "carts d" "\<lambda>c. userId c = uid \<and> enabled c = False"] assms(3,4)
    by (auto simp: findCart_def)
  then have "dc \<in> set (carts d)" "userId dc = uid"
    by (auto simp: findCart_def dest: find_Some_mem)
  then have "cart_id dc = k" using assms(5) by simp
  moreover have "c = reenabled dc"
    using assms(1,2) dc
    by (auto simp: createCart_def Let_def reenabled_def split: option.splits if_splits)
  ultimately show ?thesis by (simp add: reenabled_def)
qed

lemma clearCart_Inr_id:
  assumes "clearCart e d uid = (Inr x, d')"
    and "z \<in> set (carts d)" and "userId z = uid"
    and "\<forall>y \<in> set (carts d). userId y = uid \<longrightarrow> cart_id y = k"
  shows "\<exists>c. findCart d' uid True = Some c \<and> cart_id c = k"
proof (cases "findCart d uid True")
  case None
  from assms(1) obtain c where c: "fst (createCart e d uid) = Inr c" "d' = snd (createCart e d uid)"
    unfolding clearCart_none [OF None] by (cases "fst (createCart e d uid)") auto
  then show ?thesis
    using createCart_Inr [OF c(1) None] createCart_Inr_id [OF c(1) None assms(2-4)] by blast
next
  case (Some c)
  obtain err d1 where rs: "returnStock e d (items c) = (err, d1)"
    by (cases "returnStock e d (items c)") auto
  have cd: "carts d1 = carts d" using returnStock_frame(1) [of e d "items c"] rs by simp
  have d': "d' = updateCart d1 (c\<lparr>items := [], totalPrice := 0\<rparr>)"
    using assms(1) unfolding clearCart_enabled [OF Some] rs
    by (cases err) (auto split: if_splits)
  have cu: "userId c = uid" "enabled c = True" "c \<in> set (carts d)"
    using Some by (auto simp: findCart_def dest: find_Some_mem)
  have "findCart d1 uid True = Some c" using Some cd by (simp add: findCart_def)
  then have "findCart d' uid True = Some (c\<lparr>items := [], totalPrice := 0\<rparr>)"
    unfolding d' using cu by (intro findCart_updateCart_same) simp_all
  moreover have "cart_id c = k" using cu assms(4) by simp
  ultimately show ?thesis by simp
qed

section \<open>Stock never goes negative\<close>

lemma stock_nonneg_upd:
  "stock_nonneg d \<Longrightarrow> 0 \<le> stock r' \<Longrightarrow> stock_nonneg (d\<lparr>records := (records d)(rid \<mapsto> r')\<rparr>)"
  unfolding stock_nonneg_def by auto

lemma stock_nonneg_setStock:
  "stock_nonneg d \<Longrightarrow> 0 \<le> v \<Longrightarrow> stock_nonneg (setStock d rid r v)"
  unfolding setStock_def by (rule stock_nonneg_upd) simp_all

lemma stock_nonneg_stock_eq:
  assumes "\<And>rid. map_option stock (records d' rid) = map_option stock (records d rid)"
    and "stock_nonneg d"
  shows "stock_nonneg d'"
  unfolding stock_nonneg_def
proof (intro allI impI)
  fix rid r assume "records d' rid = Some r"
  then have "map_option stock (records d rid) = Some (stock r)" using assms(1) [of rid] by simp
  then obtain r0 where r0: "records d rid = Some r0" "stock r0 = stock r" by auto
  then have "0 \<le> stock r0" using assms(2) unfolding stock_nonneg_def by blast
  then show "0 \<le> stock r" using r0(2) by simp
qed

lemma amounts_positive_updateCart:
  "amounts_positive d \<Longrightarrow> \<forall>item \<in> set (items c). 1 \<le> amount item \<Longrightarrow>
   amounts_positive (updateCart d c)"
  unfolding amounts_positive_def updateCart_def by auto

lemma amounts_positive_insertCart:
  "amounts_positive d \<Longrightarrow> \<forall>item \<in> set (items c). 1 \<le> amount item \<Longrightarrow>
   amounts_positive (insertCart d c)"
  unfolding amounts_positive_def insertCart_def by auto

lemma addLine_amounts:
  assumes "\<forall>item \<in> set xs. 1 \<le> amount item" and "0 < amt"
  shows "\<forall>item \<in> set (addLine xs rid amt p det). 1 \<le> amount item"
proof (cases "findIndex (\<lambda>item. recordId item = rid) xs")
  case None
  then show ?thesis using assms by (auto simp: addLine_def)
next
  case (Some i)
  then have "i < length xs" by (simp add: findIndex_Some)
  then have "1 \<le> amount (xs ! i)" using assms(1) by simp
  then show ?thesis using assms Some
    by (auto simp: addLine_def dest!: set_update_subset_insert [THEN subsetD])
qed

lemma removedCart_amounts:
  assumes "\<forall>item \<in> set (items c). 1 \<le> amount item" "i < length (items c)"
    and "\<not> amount (items c ! i) < amt"
  shows "\<forall>item \<in> set (items (removedCart (num e) c i amt)). 1 \<le> amount item"
proof (cases "amount (items c ! i) = amt")
  case True
  then show ?thesis using assms(1) set_splice1 [of i "items c"]
    by (auto simp: removedCart_def recalculateTotal_def)
next
  case False
  then have "1 \<le> amount (items c ! i) - amt" using assms(3) by simp
  then show ?thesis using assms(1) False
    by (auto simp: removedCart_def recalculateTotal_def
             dest!: set_update_subset_insert [THEN subsetD])
qed

lemma updateStock_inv:
  assumes "stock_nonneg d" "amounts_positive d"
  shows "stock_nonneg (snd (updateStock e d rid amt)) \<and>
         amounts_positive (snd (updateStock e d rid amt))"
proof (cases "records d rid")
  case None
  then show ?thesis using assms by (simp add: updateStock_def)
next
  case (Some r)
  then have "0 \<le> stock r" using assms(1) by (simp add: stock_nonneg_def)
  then show ?thesis using assms Some
    by (auto simp: updateStock_def Let_def amounts_positive_def intro!: stock_nonneg_upd)
qed

lemma addItemToCart_inv:
  assumes "stock_nonneg d" "amounts_positive d" "0 < amt"
  shows "stock_nonneg (snd (addItemToCart e d uid rid amt email)) \<and>
         amounts_positive (snd (addItemToCart e d uid rid amt email))"
proof (cases "records d rid")
  case None
  then show ?thesis using assms by (simp add: addItemToCart_def)
next
  case (Some r)
  show ?thesis
  proof (cases "stock r < amt")
    case True
    then show ?thesis using assms Some by (simp add: addItemToCart_def)
  next
    case False
    obtain c isNew d1 where rc: "resolveCart d uid email = (c, isNew, d1)"
      by (cases "resolveCart d uid email") auto
    note fr = resolveCart_frame [OF rc]
    have s1: "stock_nonneg d1" using assms(1) fr(1) by (simp add: stock_nonneg_def)
    have a1: "amounts_positive d1" using assms(2) fr(2) by (simp add: amounts_positive_def)
    have ci: "\<forall>item \<in> set (items c). 1 \<le> amount item"
      using resolveCart_items [OF rc] assms(2) by (auto simp: amounts_positive_def)
    define d2 where "d2 = setStock d1 rid r (stock r - amt)"
    have s2: "stock_nonneg d2"
      unfolding d2_def using s1 False by (intro stock_nonneg_setStock) auto
    have a2: "amounts_positive d2" unfolding d2_def using a1 by (simp add: amounts_positive_def)
    define c' where "c' = addedCart (num e) c r rid amt"
    have ci': "\<forall>item \<in> set (items c'). 1 \<le> amount item"
      unfolding c'_def addedCart_def Let_def using addLine_amounts [OF ci assms(3)] by simp
    have s3: "stock_nonneg (insertCart d2 c')" "stock_nonneg (updateCart d2 c')"
      using s2 by (simp_all add: stock_nonneg_def)
    have a3: "amounts_positive (insertCart d2 c')" "amounts_positive (updateCart d2 c')"
      using a2 ci' by (simp_all add: amounts_positive_updateCart amounts_positive_insertCart)
    show ?thesis
      unfolding addItemToCart_snd [OF Some False rc]
      using s1 s2 s3 a1 a2 a3 unfolding d2_def c'_def by simp
  qed
qed

lemma removeItemFromCartByEmail_inv:
  assumes "stock_nonneg d" "amounts_positive d" "0 < amt"
  shows "stock_nonneg (snd (removeItemFromCartByEmail e d email rid amt)) \<and>
         amounts_positive (snd (removeItemFromCartByEmail e d email rid amt))"
proof (cases "findUserByEmail d email")
  case None
  then show ?thesis using assms by (simp add: removeItemFromCartByEmail_def)
next
  case (Some u)
  note u = Some
  show ?thesis
  proof (cases "findCart d (user_id u) True")
    case None
    then show ?thesis using assms u by (simp add: removeItemFromCartByEmail_def)
  next
    case (Some c)
    note c = Some
    then have cin: "c \<in> set (carts d)" by (auto simp: findCart_def dest: find_Some_mem)
    show ?thesis
    proof (cases "findIndex (\<lambda>item. recordId item = rid) (items c)")
      case None
      then show ?thesis using assms u c by (simp add: removeItemFromCartByEmail_def)
    next
      case (Some i)
      note i = Some
      show ?thesis
      proof (cases "amount (items c ! i) < amt")
        case True
        then show ?thesis using assms u c i by (simp add: removeItemFromCartByEmail_def)
      next
        case False
        have il: "i < length (items c)" using i by (simp add: findIndex_Some)
        have ci: "\<forall>item \<in> set (items c). 1 \<le> amount item"
          using cin assms(2) by (simp add: amounts_positive_def)
        note ci' = removedCart_amounts [OF ci il False]
        show ?thesis
        proof (cases "records d rid")
          case None
          have "amounts_positive (updateCart d (removedCart (num e) c i amt))"
            using assms(2) ci' by (rule amounts_positive_updateCart)
          moreover have "stock_nonneg (updateCart d (removedCart (num e) c i amt))"
            using assms(1) by (simp add: stock_nonneg_def)
          ultimately show ?thesis
            unfolding removeItemFromCartByEmail_ok [OF u c i False] using assms None by simp
        next
          case (Some r)
          then have "0 \<le> stock r" using assms(1) by (simp add: stock_nonneg_def)
          then have s2: "stock_nonneg (setStock d rid r (stock r + amt))"
            using assms by (intro stock_nonneg_setStock) auto
          have a2: "amounts_positive (setStock d rid r (stock r + amt))"
            using assms(2) by (simp add: amounts_positive_def)
          have "amounts_positive (updateCart (setStock d rid r (stock r + amt)) (removedCart (num e) c i amt))"
            using a2 ci' by (rule amounts_positive_updateCart)
          moreover have "stock_nonneg (updateCart (setStock d rid r (stock r + amt)) (removedCart (num e) c i amt))"
            using s2 by (simp add: stock_nonneg_def)
          ultimately show ?thesis
            unfolding removeItemFromCartByEmail_ok [OF u c i False] using assms Some s2 a2 by simp
        qed
      qed
    qed
  qed
qed

lemma removeItemFromCart_inv:
  assumes "stock_nonneg d" "amounts_positive d"
  shows "stock_nonneg (snd (removeItemFromCart e d uid rid)) \<and>
         amounts_positive (snd (removeItemFromCart e d uid rid))"
proof (cases "findCart d uid True")
  case None
  then show ?thesis using assms by (simp add: removeItemFromCart_def)
next
  case (Some c)
  note c = Some
  then have cin: "c \<in> set (carts d)" by (auto simp: findCart_def dest: find_Some_mem)
  show ?thesis
  proof (cases "findIndex (\<lambda>item. recordId item = rid) (items c)")
    case None
    then show ?thesis using assms c by (simp add: removeItemFromCart_def)
  next
    case (Some i)
    note i = Some
    have il: "i < length (items c)" using i by (simp add: findIndex_Some)
    have ci: "\<forall>item \<in> set (items c). 1 \<le> amount item"
      using cin assms(2) by (simp add: amounts_positive_def)
    then have ai: "1 \<le> amount (items c ! i)" using il by simp
    have ci': "\<forall>item \<in> set (items (wholeLineRemoved (num e) c i)). 1 \<le> amount item"
      using ci set_splice1 [of i "items c"]
      by (auto simp: wholeLineRemoved_def recalculateTotal_def)
    show ?thesis
    proof (cases "records d rid")
      case None
      have "amounts_positive (updateCart d (wholeLineRemoved (num e) c i))"
        using assms(2) ci' by (rule amounts_positive_updateCart)
      moreover have "stock_nonneg (updateCart d (wholeLineRemoved (num e) c i))"
        using assms(1) by (simp add: stock_nonneg_def)
      ultimately show ?thesis
        unfolding removeItemFromCart_ok [OF c i] using assms None by simp
    next
      case (Some r)
      let ?d1 = "stockReturned d rid r (amount (items c ! i))"
      from Some have "0 \<le> stock r" using assms(1) by (simp add: stock_nonneg_def)
      then have s2: "stock_nonneg ?d1"
        unfolding stockReturned_def using assms(1) ai by (intro stock_nonneg_upd) auto
      have a2: "amounts_positive ?d1" using assms(2) by (simp add: amounts_positive_def)
      have "amounts_positive (updateCart ?d1 (wholeLineRemoved (num e) c i))"
        using a2 ci' by (rule amounts_positive_updateCart)
      moreover have "stock_nonneg (updateCart ?d1 (wholeLineRemoved (num e) c i))"
        using s2 by (simp add: stock_nonneg_def)
      ultimately show ?thesis
        unfolding removeItemFromCart_ok [OF c i] using assms Some s2 a2 by simp
    qed
  qed
qed

lemma clearCart_inv:
  assumes "stock_nonneg d" "amounts_positive d"
  shows "stock_nonneg (snd (clearCart e d uid)) \<and> amounts_positive (snd (clearCart e d uid))"
proof
  show "stock_nonneg (snd (clearCart e d uid))"
    using clearCart_stock assms(1) by (rule stock_nonneg_stock_eq)
  show "amounts_positive (snd (clearCart e d uid))"
    unfolding amounts_positive_def
  proof (intro ballI)
    fix c' item assume "c' \<in> set (carts (snd (clearCart e d uid)))" "item \<in> set (items c')"
    then show "1 \<le> amount item"
      using clearCart_carts [of c' e d uid] assms(2) by (auto simp: amounts_positive_def)
  qed
qed

lemma step_inv:
  assumes "stock_nonneg d" "amounts_positive d" "valid_op x"
  shows "stock_nonneg (step d x) \<and> amounts_positive (step d x)"
proof (cases x)
  case (UpdateStock e rid amt)
  then show ?thesis using assms updateStock_inv by simp
next
  case (AddItem e uid rid amt email)
  then show ?thesis using assms addItemToCart_inv by simp
next
  case (RemoveItemByEmail e email rid amt)
  then show ?thesis using assms removeItemFromCartByEmail_inv by simp
next
  case (RemoveItem e uid rid)
  then show ?thesis using assms removeItemFromCart_inv by simp
next
  case (Clear e uid)
  then show ?thesis using assms clearCart_inv by simp
qed

lemma run_inv:
  assumes "stock_nonneg d" "amounts_positive d" "list_all valid_op ops"
  shows "stock_nonneg (run d ops) \<and> amounts_positive (run d ops)"
  using assms unfolding run_def
proof (induction ops arbitrary: d)
  case Nil
  then show ?case by simp
next
  case (Cons x xs)
  then have "stock_nonneg (step d x) \<and> amounts_positive (step d x)"
    using step_inv [of d x] by simp
  then show ?case using Cons by simp
qed

lemma updateStock_rejects:
  "records d rid = Some r \<Longrightarrow> amt < 0 \<Longrightarrow> stock r < - amt \<Longrightarrow>
   updateStock e d rid amt = (Inl CannotDecreaseStock, d)"
  by (simp add: updateStock_def)

lemma addItemToCart_rejects:
  "records d rid = Some r \<Longrightarrow> stock r < amt \<Longrightarrow>
   addItemToCart e d uid rid amt email = (Inl NotEnoughStock, d)"
  by (simp add: addItemToCart_def)

text \<open>
  Claim C1. Start from a store in which no record has negative stock and every stored
  line item has an amount of at least 1, and run any sequence of \<open>updateStock\<close> (with
  any signed amount), \<open>addItemToCart\<close>, \<open>removeItemFromCartByEmail\<close>,
  \<open>removeItemFromCart\<close> and \<open>clearCart\<close> calls, with the positive amounts the controllers
  let through and any outcome of the writes. Then no record has negative stock. In the
  state reached, a decrement is guarded at the point where it is asked for:
  \<open>updateStock\<close> by a negative amount larger than the stock and \<open>addItemToCart\<close> of more
  than the stock both fail and return the store unchanged.
\<close>

theorem stock_never_negative:
  assumes "stock_nonneg d" and "amounts_positive d" and "list_all valid_op ops"
  shows "stock_nonneg (run d ops) \<and>
         (\<forall>e rid r amt. records (run d ops) rid = Some r \<and> amt < 0 \<and> stock r < - amt \<longrightarrow>
            updateStock e (run d ops) rid amt = (Inl CannotDecreaseStock, run d ops)) \<and>
         (\<forall>e uid rid r amt email. records (run d ops) rid = Some r \<and> stock r < amt \<longrightarrow>
            addItemToCart e (run d ops) uid rid amt email = (Inl NotEnoughStock, run d ops))"
  using run_inv [OF assms] updateStock_rejects addItemToCart_rejects by blast

theorem stock_never_negative_witness:
  "stock_nonneg db0 \<and> amounts_positive db0 \<and> list_all valid_op scenario \<and>
   stock_nonneg (run db0 scenario) \<and>
   map_option stock (records (run db0 scenario) 10) = Some 0 \<and>
   updateStock all_ok (run db0 scenario) 10 (- 1) = (Inl CannotDecreaseStock, run db0 scenario)"
proof -
  have a: "stock_nonneg db0" by (simp add: stock_nonneg_def db0_def recP_def)
  have b: "amounts_positive db0" by (simp add: amounts_positive_def db0_def)
  have c: "list_all valid_op scenario" by (simp add: scenario_def)
  have d: "records (run db0 scenario) 10 = Some (recP\<lparr>stock := 0\<rparr>)"
    by (simp add: run_def scenario_def db0_def recP_def all_ok_def addItemToCart_def
        resolveCart_def findCart_def findCartById_def updateCart_def insertCart_def setStock_def
        addLine_def removeItemFromCartByEmail_def findUserByEmail_def splice1_def
        recalculateTotal_def updateStock_def Let_def)
  have e: "(- 1 :: int) < 0 \<and> stock (recP\<lparr>stock := 0\<rparr>) < - (- 1)" by simp
  note t = stock_never_negative [OF a b c]
  have f: "updateStock all_ok (run db0 scenario) 10 (- 1) =
           (Inl CannotDecreaseStock, run db0 scenario)"
    using t d e by blast
  show ?thesis using a b c d f t by simp
qed

section \<open>The total of a cart\<close>

lemma addedCart_total:
  "totalPrice (addedCart a c r rid amt) = round2 a (reduceTotalAdd a (items (addedCart a c r rid amt)))"
  by (simp add: addedCart_def Let_def)

lemma removedCart_total:
  "totalPrice (removedCart a c i amt) = nanToZero (reduceTotal a (items (removedCart a c i amt)))"
  by (simp add: removedCart_def recalculateTotal_def)

lemma wholeLineRemoved_total:
  "totalPrice (wholeLineRemoved a c i) = nanToZero (reduceTotal a (items (wholeLineRemoved a c i)))"
  by (simp add: wholeLineRemoved_def recalculateTotal_def)

lemma addItemToCart_written:
  assumes "c' \<in> set (carts (snd (addItemToCart e d uid rid amt email)))" and "c' \<notin> set (carts d)"
  shows "totalPrice c' = round2 (num e) (reduceTotalAdd (num e) (items c'))"
proof (cases "records d rid")
  case None
  then show ?thesis using assms by (simp add: addItemToCart_def)
next
  case (Some r)
  show ?thesis
  proof (cases "stock r < amt")
    case True
    then show ?thesis using assms Some by (simp add: addItemToCart_def)
  next
    case False
    obtain c isNew d1 where rc: "resolveCart d uid email = (c, isNew, d1)"
      by (cases "resolveCart d uid email") auto
    have "c' = addedCart (num e) c r rid amt"
      using assms resolveCart_frame(2) [OF rc]
      unfolding addItemToCart_snd [OF Some False rc]
      by (auto simp: updateCart_def split: if_splits)
    then show ?thesis by (simp add: addedCart_total)
  qed
qed

lemma removeItemFromCartByEmail_written:
  assumes "c' \<in> set (carts (snd (removeItemFromCartByEmail e d email rid amt)))"
    and "c' \<notin> set (carts d)"
  shows "totalPrice c' = nanToZero (reduceTotal (num e) (items c'))"
proof (cases rule: removeItemFromCartByEmail_cases [of e d email rid amt])
  case early
  then show ?thesis using assms by simp
next
  case (late u c i)
  have "c' = removedCart (num e) c i amt"
    using assms unfolding removeItemFromCartByEmail_ok [OF late]
    by (auto simp: updateCart_def split: option.splits if_splits)
  then show ?thesis by (simp add: removedCart_total)
qed

lemma removeItemFromCart_written:
  assumes "c' \<in> set (carts (snd (removeItemFromCart e d uid rid)))" and "c' \<notin> set (carts d)"
  shows "totalPrice c' = nanToZero (reduceTotal (num e) (items c'))"
proof (cases rule: removeItemFromCart_cases [of e d uid rid])
  case early
  then show ?thesis using assms by simp
next
  case (late c i)
  have "c' = wholeLineRemoved (num e) c i"
    using assms unfolding removeItemFromCart_ok [OF late]
    by (auto simp: updateCart_def split: option.splits if_splits)
  then show ?thesis by (simp add: wholeLineRemoved_total)
qed

lemma clearCart_written:
  assumes "c' \<in> set (carts (snd (clearCart e d uid)))" and "c' \<notin> set (carts d)"
  shows "totalPrice c' = nanToZero (reduceTotal (num e) (items c'))"
  using clearCart_carts [OF assms(1)] assms(2)
  by (auto simp: reduceTotal_def nanToZero_def zero_number_def)

lemma step_written:
  assumes "c \<in> set (carts (step d x))" and "c \<notin> set (carts d)"
  shows "total_recomputed x c"
proof (cases x)
  case (UpdateStock e rid amt)
  then show ?thesis using assms by simp
next
  case (AddItem e uid rid amt email)
  then show ?thesis using assms addItemToCart_written by simp
next
  case (RemoveItemByEmail e email rid amt)
  then show ?thesis using assms removeItemFromCartByEmail_written by simp
next
  case (RemoveItem e uid rid)
  then show ?thesis using assms removeItemFromCart_written by simp
next
  case (Clear e uid)
  then show ?thesis using assms clearCart_written by simp
qed

lemma total_0125:
  "round2 binary64 (reduceTotalAdd binary64
     [\<lparr>recordId = 12, amount = 1, itemPrice = Finite (1 / 8),
       itemDetails = Some \<lparr>rd_title = ''Kind of Blue'', rd_image = []\<rparr>\<rparr>])
   = Finite (1170935903116329 / 2 ^ 53)"
  by (simp add: round2_def reduceTotalAdd_def lineTotalAdd_def b64_eval)

lemma total_1005:
  "round2 binary64 (reduceTotalAdd binary64
     [\<lparr>recordId = 13, amount = 1, itemPrice = Finite (1131529406376837 / 2 ^ 50),
       itemDetails = Some \<lparr>rd_title = ''Kind of Blue'', rd_image = []\<rparr>\<rparr>])
   = Finite 1"
  by (simp add: round2_def reduceTotalAdd_def lineTotalAdd_def b64_eval)

lemma total_01_02:
  "nanToZero (reduceTotal binary64
     [\<lparr>recordId = 14, amount = 1, itemPrice = Finite (3602879701896397 / 2 ^ 55),
       itemDetails = None\<rparr>,
      \<lparr>recordId = 15, amount = 1, itemPrice = Finite (3602879701896397 / 2 ^ 54),
       itemDetails = None\<rparr>])
   = Finite (1351079888211149 / 2 ^ 52)"
  by (simp add: reduceTotal_def lineTotal_def b64_eval)

text \<open>
  Claim C2, as the code has it. After any sequence of operations, every cart that the
  next operation writes has its total recomputed from all its lines, by the operation's
  own reduce from the left in JavaScript number arithmetic, whatever that arithmetic
  yields: \<open>removeItemFromCartByEmail\<close>, \<open>removeItemFromCart\<close> and \<open>clearCart\<close> store
  \<open>((0 + a1 * p1) + a2 * p2) + ...\<close> (0 in place of NaN), and \<open>addItemToCart\<close> stores
  that reduce (falsy amounts and prices read as 0) passed through
  \<open>Math.round(total * 100) / 100\<close>. \<open>updateStock\<close> writes no cart.
\<close>

theorem totalPrice_recomputed:
  assumes "c \<in> set (carts (step (run d ops) x))" and "c \<notin> set (carts (run d ops))"
  shows "total_recomputed x c"
  using assms by (rule step_written)

text \<open>
  In binary64: one unit at 0.125 is stored as the double 0.13; one unit at 1.005 is
  stored as 1; and after a removal that leaves lines at 0.1 and 0.2 the stored total is
  the double 0.30000000000000004.
\<close>

theorem totalPrice_recomputed_witness:
  "cart3 \<in> set (carts (step (run db3 []) (AddItem all_ok 1 12 1 ''u1@shop''))) \<and>
   cart3 \<notin> set (carts (run db3 [])) \<and>
   total_recomputed (AddItem all_ok 1 12 1 ''u1@shop'') cart3 \<and>
   totalPrice cart3 = Finite (1170935903116329 / 2 ^ 53) \<and>
   carts (step (run db4 []) (AddItem all_ok 1 13 1 ''u1@shop'')) = [cart4] \<and>
   totalPrice cart4 = Finite 1 \<and>
   cart6 \<in> set (carts (step (run db5 []) (RemoveItem all_ok 1 10))) \<and>
   cart6 \<notin> set (carts (run db5 [])) \<and>
   total_recomputed (RemoveItem all_ok 1 10) cart6 \<and>
   totalPrice cart6 = Finite (1351079888211149 / 2 ^ 52)"
proof -
  have a: "carts (step (run db3 []) (AddItem all_ok 1 12 1 ''u1@shop'')) = [cart3]"
    using total_0125
    by (simp add: run_def addItemToCart_def resolveCart_def findCart_def findCartById_def
        insertCart_def setStock_def addLine_def orZero_def zero_number_def
        db3_def db0_def recP_def cart3_def all_ok_def Let_def)
  have b: "carts (run db3 []) = []" by (simp add: run_def db3_def db0_def)
  have c: "carts (step (run db4 []) (AddItem all_ok 1 13 1 ''u1@shop'')) = [cart4]"
    using total_1005
    by (simp add: run_def addItemToCart_def resolveCart_def findCart_def findCartById_def
        insertCart_def setStock_def addLine_def orZero_def zero_number_def
        db4_def db0_def recP_def cart4_def all_ok_def Let_def)
  have d: "carts (step (run db5 []) (RemoveItem all_ok 1 10)) = [cart6]"
    using total_01_02
    by (simp add: run_def removeItemFromCart_def findCart_def updateCart_def splice1_def
        recalculateTotal_def
        db5_def db0_def recP_def cart5_def cart6_def all_ok_def Let_def)
  have e: "carts (run db5 []) = [cart5]" "cart6 \<noteq> cart5"
    by (simp_all add: run_def db5_def db0_def cart5_def cart6_def)
  have f: "totalPrice cart3 = Finite (1170935903116329 / 2 ^ 53)" "totalPrice cart4 = Finite 1"
    "totalPrice cart6 = Finite (1351079888211149 / 2 ^ 52)"
    by (simp_all add: cart3_def cart4_def cart6_def)
  have g: "cart3 \<in> set (carts (step (run db3 []) (AddItem all_ok 1 12 1 ''u1@shop'')))"
    "cart3 \<notin> set (carts (run db3 []))"
    "cart6 \<in> set (carts (step (run db5 []) (RemoveItem all_ok 1 10)))"
    "cart6 \<notin> set (carts (run db5 []))"
    using a b d e by simp_all
  show ?thesis
    using c f g totalPrice_recomputed [OF g(1,2)] totalPrice_recomputed [OF g(3,4)]
    by simp
qed

text \<open>
  Claim C2 as stated fails: adding one unit of a record priced 0.125 to an empty cart
  leaves the cart with the double 0.13 as total, while amount times price is 0.125.
\<close>

theorem totalPrice_exact_counterexample:
  "map_option (\<lambda>c. (totalPrice c, lineSum (items c)))
     (findCart (snd (addItemToCart all_ok db3 1 12 1 ''u1@shop'')) 1 True)
     = Some (Finite (1170935903116329 / 2 ^ 53), 1 / 8) \<and>
   Finite (1170935903116329 / 2 ^ 53) \<noteq> Finite (1 / 8)"
  using total_0125
  by (simp add: addItemToCart_def resolveCart_def findCart_def findCartById_def
      insertCart_def setStock_def addLine_def orZero_def zero_number_def
        lineSum_def db3_def db0_def recP_def all_ok_def Let_def)

section \<open>Converting a cart into an order\<close>

text \<open>
  Claim C3 fails on the code in one part. Whenever \<open>ordersController.createOrder\<close> answers
  201, the order's total is the total of the user's enabled cart before the call, the
  order's items are that cart's lines (record, amount, captured price), and the stock of
  every record is what it was. But afterwards the user again has an enabled cart (empty,
  total 0): \<open>orderService.createOrder\<close> disables the cart, and the controller's following
  \<open>clearCart\<close> finds no enabled cart and goes through \<open>createCart\<close>, which switches a
  disabled cart of the user back on. When all carts of the user bear the \<open>_id\<close> of the
  converted cart (\<open>CartSchema\<close> declares \<open>userId\<close> unique), the enabled cart is the
  converted cart itself.
\<close>

theorem createOrder_leaves_cart_enabled:
  assumes "fst (ordersController_createOrder e d email pm) = Created ord"
  shows "\<exists>u src c. findUserByEmail d email = Some u \<and>
           findCart d (user_id u) True = Some src \<and> items src \<noteq> [] \<and>
           total ord = totalPrice src \<and> o_items ord = map snapshot (items src) \<and>
           findCart (snd (ordersController_createOrder e d email pm)) (user_id u) True = Some c \<and>
           enabled c \<and> items c = [] \<and> totalPrice c = 0 \<and>
           ((\<forall>y \<in> set (carts d). userId y = user_id u \<longrightarrow> cart_id y = cart_id src) \<longrightarrow>
              cart_id c = cart_id src) \<and>
           (\<forall>rid. map_option stock (records (snd (ordersController_createOrder e d email pm)) rid)
                  = map_option stock (records d rid))"
proof -
  from assms obtain u where u: "findUserByEmail d email = Some u" "email \<noteq> []"
    by (auto simp: ordersController_createOrder_def Let_def split: if_splits option.splits)
  from assms u obtain cv where cv: "getCartByUserId d (user_id u) = Inr (Some cv)" "v_items cv \<noteq> []"
    by (auto simp: ordersController_createOrder_def Let_def split: if_splits option.splits sum.splits)
  define pm' where "pm' = (case pm of None \<Rightarrow> ''Credit Card'' | Some p \<Rightarrow> p)"
  obtain res d1 where os: "orderService_createOrder e d (user_id u) (userEmail u) (Some cv) pm' = (res, d1)"
    by (cases "orderService_createOrder e d (user_id u) (userEmail u) (Some cv) pm'") auto
  obtain res2 d2 where cc: "clearCart e d1 (user_id u) = (res2, d2)"
    by (cases "clearCart e d1 (user_id u)") auto
  have step: "ordersController_createOrder e d email pm =
     (case res of Inl err \<Rightarrow> (ServerError err, d1)
      | Inr ord' \<Rightarrow> (case res2 of Inl err \<Rightarrow> (ServerError err, d2) | Inr cl \<Rightarrow> (Created ord', d2)))"
    using u cv os cc
    by (simp add: ordersController_createOrder_def Let_def pm'_def split: sum.splits)
  from assms step obtain cl where r: "res = Inr ord" "res2 = Inr cl"
    by (auto split: sum.splits)
  have final: "snd (ordersController_createOrder e d email pm) = d2"
    using step r by simp
  obtain src where src: "findCart d (user_id u) True = Some src" "v_cart_id cv = cart_id src"
      "v_totalPrice cv = totalPrice src" "map toOrderItem (v_items cv) = map snapshot (items src)"
    using getCartByUserId_Some [OF cv(1)] by blast
  have ne: "items src \<noteq> []" using src(4) cv(2) by auto
  note o = orderService_createOrder_Inr [OF os [unfolded r]]
  note oc = orderService_createOrder_carts [OF os [unfolded r]]
  obtain c where c: "findCart d2 (user_id u) True = Some c" "items c = []" "totalPrice c = 0"
    using clearCart_Inr [OF cc [unfolded r]] by blast
  have en: "enabled c" using c(1) by (auto simp: findCart_def dest: find_Some_mem)
  have st: "\<forall>rid. map_option stock (records d2 rid) = map_option stock (records d rid)"
    using clearCart_stock [of e d1 "user_id u"] cc o(3) by simp
  have same: "cart_id c = cart_id src"
    if uniq: "\<forall>y \<in> set (carts d). userId y = user_id u \<longrightarrow> cart_id y = cart_id src"
  proof -
    have sm: "src \<in> set (carts d)" "userId src = user_id u"
      using src(1) by (auto simp: findCart_def dest: find_Some_mem)
    let ?f = "\<lambda>x. if cart_id x = v_cart_id cv
                   then x\<lparr>items := [], totalPrice := 0, enabled := False\<rparr> else x"
    have z: "?f src \<in> set (carts d1)" "userId (?f src) = user_id u"
      using sm by (simp_all add: oc)
    have uniq1: "\<forall>y \<in> set (carts d1). userId y = user_id u \<longrightarrow> cart_id y = cart_id src"
      using uniq by (auto simp: oc)
    obtain c' where "findCart d2 (user_id u) True = Some c'" "cart_id c' = cart_id src"
      using clearCart_Inr_id [OF cc [unfolded r] z uniq1] by blast
    then show ?thesis using c(1) by simp
  qed
  show ?thesis
    unfolding final using u(1) src(1) ne o(1,2) src(3,4) c en st same by auto
qed

text \<open>In the example the cart with id 50 is the user's only cart: after the conversion it is
  empty and enabled.\<close>

theorem createOrder_leaves_cart_enabled_witness:
  "fst (ordersController_createOrder all_ok db2 ''u1@shop'' None) = Created order2 \<and>
   carts db2 = [cart2] \<and> enabled cart2 \<and> cart_id cart2 = 50 \<and>
   carts (snd (ordersController_createOrder all_ok db2 ''u1@shop'' None)) =
     [\<lparr>cart_id = 50, userId = 1, cartEmail = None, items = [], totalPrice = 0, enabled = True\<rparr>] \<and>
   records (snd (ordersController_createOrder all_ok db2 ''u1@shop'' None)) = records db2 \<and>
   (\<exists>c. findCart (snd (ordersController_createOrder all_ok db2 ''u1@shop'' None)) 1 True = Some c \<and>
        enabled c \<and> items c = [])"
proof -
  have ev: "ordersController_createOrder all_ok db2 ''u1@shop'' None =
      (Created order2,
       db2\<lparr>nextId := 101, orders := [order2],
           carts := [\<lparr>cart_id = 50, userId = 1, cartEmail = None, items = [], totalPrice = 0,
                      enabled = True\<rparr>]\<rparr>)"
    by (simp add: ordersController_createOrder_def orderService_createOrder_def clearCart_def
        createCart_def getCartByUserId_def viewItem_def toOrderItem_def findUserByEmail_def
        findUserById_def findCart_def updateCart_def db2_def db0_def cart2_def recP_def
        order2_def all_ok_def Let_def)
  then have a: "fst (ordersController_createOrder all_ok db2 ''u1@shop'' None) = Created order2"
    by simp
  have u: "findUserByEmail db2 ''u1@shop'' = Some \<lparr>user_id = 1, userEmail = ''u1@shop'', cartId = None\<rparr>"
    by (simp add: findUserByEmail_def db2_def db0_def)
  have b: "carts db2 = [cart2]" "enabled cart2" "cart_id cart2 = 50"
    by (simp_all add: db2_def cart2_def)
  have c: "\<exists>c. findCart (snd (ordersController_createOrder all_ok db2 ''u1@shop'' None)) 1 True = Some c \<and>
        enabled c \<and> items c = []"
    using createOrder_leaves_cart_enabled [OF a] u by auto
  show ?thesis using ev a b c by simp
qed

section \<open>A cart write that is rejected after the stock was lowered\<close>

text \<open>
  Claim C4, as the code has it. When the record write of \<open>addItemToCart\<close> is accepted and
  the cart write is then rejected, the call fails, the carts are as before, and the
  record's stock stays lowered by the amount: there is no compensating release.
\<close>

theorem addItemToCart_cart_write_rejected:
  assumes "records d rid = Some r" and "\<not> stock r < amt"
    and "recordWrites e" and "\<not> cartWrites e"
  shows "fst (addItemToCart e d uid rid amt email) = Inl WriteRejected \<and>
         carts (snd (addItemToCart e d uid rid amt email)) = carts d \<and>
         records (snd (addItemToCart e d uid rid amt email)) =
           (records d)(rid \<mapsto> r\<lparr>stock := stock r - amt\<rparr>)"
proof -
  obtain c isNew d1 where rc: "resolveCart d uid email = (c, isNew, d1)"
    by (cases "resolveCart d uid email") auto
  show ?thesis
    using assms(3,4) resolveCart_frame [OF rc]
    by (simp add: addItemToCart_ok [OF assms(1,2) rc])
qed

theorem addItemToCart_cart_write_rejected_witness:
  "records db0 10 = Some recP \<and> \<not> stock recP < 3 \<and>
   recordWrites carts_down \<and> \<not> cartWrites carts_down \<and>
   fst (addItemToCart carts_down db0 1 10 3 ''u1@shop'') = Inl WriteRejected \<and>
   carts (snd (addItemToCart carts_down db0 1 10 3 ''u1@shop'')) = carts db0 \<and>
   records (snd (addItemToCart carts_down db0 1 10 3 ''u1@shop'')) = [10 \<mapsto> recP\<lparr>stock := 2\<rparr>]"
proof -
  have a: "records db0 10 = Some recP" by (simp add: db0_def)
  have b: "\<not> stock recP < 3" by (simp add: recP_def)
  have c: "recordWrites carts_down" "\<not> cartWrites carts_down" by (simp_all add: carts_down_def)
  have d: "records db0 = [10 \<mapsto> recP]" "stock recP - 3 = 2" by (simp_all add: db0_def recP_def)
  show ?thesis
    using a b c d addItemToCart_cart_write_rejected [OF a b c, of 1 "''u1@shop''"] by simp
qed

text \<open>
  Claim C4 as stated fails: record 10 has stock 5, the cart write is rejected, and
  afterwards the stock is 2 while no cart holds a line item.
\<close>

theorem addItemToCart_no_rollback_counterexample:
  "map_option stock (records db0 10) = Some 5 \<and>
   fst (addItemToCart carts_down db0 1 10 3 ''u1@shop'') = Inl WriteRejected \<and>
   map_option stock (records (snd (addItemToCart carts_down db0 1 10 3 ''u1@shop'')) 10) = Some 2 \<and>
   carts (snd (addItemToCart carts_down db0 1 10 3 ''u1@shop'')) = []"
  by (simp add: addItemToCart_def resolveCart_def findCart_def setStock_def db0_def recP_def
        carts_down_def Let_def)

section \<open>Rejected cart operations leave the store alone\<close>

text \<open>
  Claim C5. When the requested amount exceeds the record's current stock,
  \<open>addItemToCart\<close> fails with "Not enough stock" and the store is returned as it was:
  no cart, no total and no stock has changed. The check comes before the cart is looked
  up and before any write, whatever the environment.
\<close>

theorem addItemToCart_insufficient_stock:
  assumes "records d rid = Some r" and "stock r < amt"
  shows "addItemToCart e d uid rid amt email = (Inl NotEnoughStock, d)"
  using assms by (simp add: addItemToCart_def)

theorem addItemToCart_insufficient_stock_witness:
  "records db1 10 = Some (recP\<lparr>stock := 3\<rparr>) \<and> stock (recP\<lparr>stock := 3\<rparr>) < 4 \<and>
   addItemToCart all_ok db1 2 10 4 ''u2@shop'' = (Inl NotEnoughStock, db1)"
proof -
  have a: "records db1 10 = Some (recP\<lparr>stock := 3\<rparr>)" by (simp add: db1_def db0_def)
  have b: "stock (recP\<lparr>stock := 3\<rparr>) < 4" by (simp add: recP_def)
  show ?thesis
    using a b addItemToCart_insufficient_stock [OF a b, of all_ok 2 "''u2@shop''"] by simp
qed

text \<open>
  Claim C6. When the amount to remove is strictly greater than the amount of the cart's
  line for the record, \<open>removeItemFromCartByEmail\<close> fails with "Cannot remove more items
  than are in the cart" and the store is returned as it was.
\<close>

theorem removeItemFromCartByEmail_excess:
  assumes "findUserByEmail d email = Some u"
    and "findCart d (user_id u) True = Some c"
    and "findIndex (\<lambda>item. recordId item = rid) (items c) = Some i"
    and "amount (items c ! i) < amt"
  shows "removeItemFromCartByEmail e d email rid amt = (Inl CannotRemoveMore, d)"
  using assms by (simp add: removeItemFromCartByEmail_def)

theorem removeItemFromCartByEmail_excess_witness:
  "findUserByEmail db1 ''u1@shop'' = Some \<lparr>user_id = 1, userEmail = ''u1@shop'', cartId = None\<rparr> \<and>
   findCart db1 1 True = Some cart1 \<and>
   findIndex (\<lambda>item. recordId item = 10) (items cart1) = Some 0 \<and>
   amount (items cart1 ! 0) < 3 \<and>
   removeItemFromCartByEmail all_ok db1 ''u1@shop'' 10 3 = (Inl CannotRemoveMore, db1)"
proof -
  let ?u = "\<lparr>user_id = 1, userEmail = ''u1@shop'', cartId = None\<rparr>"
  have a: "findUserByEmail db1 ''u1@shop'' = Some ?u"
    by (simp add: findUserByEmail_def db1_def db0_def)
  have b: "findCart db1 (user_id ?u) True = Some cart1"
    by (simp add: findCart_def db1_def db0_def cart1_def)
  have c: "findIndex (\<lambda>item. recordId item = 10) (items cart1) = Some 0"
    by (simp add: cart1_def)
  have d: "amount (items cart1 ! 0) < 3" by (simp add: cart1_def)
  show ?thesis
    using a b c d removeItemFromCartByEmail_excess [OF a b c d, of all_ok] by simp
qed

section \<open>Clearing a cart\<close>

text \<open>
  Claim C7 fails on the code. The loop of \<open>clearCart\<close> assigns the legacy field \<open>Stock\<close>;
  whatever the cart holds and whatever the outcome of the writes, the \<open>stock\<close> of every
  record is after \<open>clearCart\<close> what it was before.
\<close>

theorem clearCart_never_changes_stock:
  "map_option stock (records (snd (clearCart e d uid)) rid) = map_option stock (records d rid)"
  by (rule clearCart_stock)

text \<open>In the example, user 1 holds 2 units of record 10, whose stock is 3. Mongoose does not
  cast the NaN that the loop assigns, so the record write is rejected: the call fails, the
  cart keeps its line, and the stock is 3 before and after.\<close>

theorem clearCart_never_changes_stock_witness:
  "map_option (\<lambda>c. map amount (items c)) (findCart db1 1 True) = Some [2] \<and>
   map_option stock (records db1 10) = Some 3 \<and>
   clearCart records_down db1 1 = (Inl WriteRejected, db1) \<and>
   map_option stock (records (snd (clearCart records_down db1 1)) 10) = Some 3"
proof -
  have a: "map_option stock (records db1 10) = Some 3" by (simp add: db1_def db0_def recP_def)
  have b: "map_option (\<lambda>c. map amount (items c)) (findCart db1 1 True) = Some [2]"
    by (simp add: findCart_def db1_def db0_def cart1_def)
  have c: "clearCart records_down db1 1 = (Inl WriteRejected, db1)"
    by (simp add: clearCart_def findCart_def db1_def db0_def cart1_def records_down_def)
  show ?thesis
    using a b c clearCart_never_changes_stock [of records_down db1 1 10] by simp
qed

text \<open>
  Claim C10. For an existing user without an enabled cart, and with the writes accepted,
  \<open>clearCart\<close> does not fail: it returns a cart that is empty, has total 0, is enabled,
  belongs to the user and is afterwards the user's enabled cart in the store. If the user
  had a disabled cart, the returned cart is that cart re-enabled and reset and the store
  differs only by it; otherwise the returned cart is appended to the carts. No record is
  changed.
\<close>

theorem clearCart_without_enabled_cart:
  assumes "findUserById d uid = Some u" and "findCart d uid True = None"
    and "cartWrites e" and "userWrites e"
  shows "\<exists>c. fst (clearCart e d uid) = Inr (Doc c) \<and> items c = [] \<and> totalPrice c = 0 \<and>
             enabled c \<and> userId c = uid \<and>
             findCart (snd (clearCart e d uid)) uid True = Some c \<and>
             (case findCart d uid False of
                Some dc \<Rightarrow> c = reenabled dc \<and> snd (clearCart e d uid) = updateCart d c
              | None \<Rightarrow> carts (snd (clearCart e d uid)) = carts d @ [c]) \<and>
             records (snd (clearCart e d uid)) = records d"
proof -
  obtain c where c: "fst (createCart e d uid) = Inr c" "items c = []" "totalPrice c = 0"
      "enabled c" "userId c = uid" "findCart (snd (createCart e d uid)) uid True = Some c"
      "(case findCart d uid False of
          Some dc \<Rightarrow> c = reenabled dc \<and> snd (createCart e d uid) = updateCart d c
        | None \<Rightarrow> carts (snd (createCart e d uid)) = carts d @ [c])"
    using createCart_fresh [OF assms] by blast
  show ?thesis
    using c by (intro exI [of _ c]) (auto simp: clearCart_none [OF assms(2)] split: option.splits)
qed

theorem clearCart_without_enabled_cart_witness:
  "findUserById db1_disabled 1 = Some \<lparr>user_id = 1, userEmail = ''u1@shop'', cartId = None\<rparr> \<and>
   findCart db1_disabled 1 True = None \<and> cartWrites all_ok \<and> userWrites all_ok \<and>
   findCart db1_disabled 1 False = Some (cart1\<lparr>enabled := False\<rparr>) \<and>
   fst (clearCart all_ok db1_disabled 1) =
     Inr (Doc (cart1\<lparr>enabled := True, items := [], totalPrice := 0\<rparr>)) \<and>
   carts (snd (clearCart all_ok db1_disabled 1)) =
     [cart1\<lparr>enabled := True, items := [], totalPrice := 0\<rparr>] \<and>
   records (snd (clearCart all_ok db1_disabled 1)) = records db1_disabled \<and>
   findCart db0 2 True = None \<and> findCart db0 2 False = None \<and>
   clearCart all_ok db0 2 =
     (Inr (Doc \<lparr>cart_id = 100, userId = 2, cartEmail = None, items = [], totalPrice = 0,
                 enabled = True\<rparr>),
      db0\<lparr>nextId := 101,
          carts := [\<lparr>cart_id = 100, userId = 2, cartEmail = None, items = [], totalPrice = 0,
                     enabled = True\<rparr>],
          users := [\<lparr>user_id = 1, userEmail = ''u1@shop'', cartId = None\<rparr>,
                    \<lparr>user_id = 2, userEmail = ''u2@shop'', cartId = Some 100\<rparr>]\<rparr>)"
proof -
  let ?u = "\<lparr>user_id = 1, userEmail = ''u1@shop'', cartId = None\<rparr>"
  have a: "findUserById db1_disabled 1 = Some ?u"
    by (simp add: findUserById_def db1_disabled_def db1_def db0_def)
  have b: "findCart db1_disabled 1 True = None"
    by (simp add: findCart_def db1_disabled_def db1_def db0_def cart1_def)
  have c: "cartWrites all_ok" "userWrites all_ok" by (simp_all add: all_ok_def)
  have f: "findCart db1_disabled 1 False = Some (cart1\<lparr>enabled := False\<rparr>)"
    by (simp add: findCart_def db1_disabled_def db1_def db0_def cart1_def)
  have g: "carts (updateCart db1_disabled (reenabled (cart1\<lparr>enabled := False\<rparr>))) =
           [cart1\<lparr>enabled := True, items := [], totalPrice := 0\<rparr>]"
    by (simp add: updateCart_def reenabled_def db1_disabled_def db1_def db0_def cart1_def)
  have h: "reenabled (cart1\<lparr>enabled := False\<rparr>) = cart1\<lparr>enabled := True, items := [], totalPrice := 0\<rparr>"
    by (simp add: reenabled_def cart1_def)
  have i: "findCart db0 2 True = None" "findCart db0 2 False = None"
    by (simp_all add: findCart_def db0_def)
  have j: "clearCart all_ok db0 2 =
     (Inr (Doc \<lparr>cart_id = 100, userId = 2, cartEmail = None, items = [], totalPrice = 0,
                 enabled = True\<rparr>),
      db0\<lparr>nextId := 101,
          carts := [\<lparr>cart_id = 100, userId = 2, cartEmail = None, items = [], totalPrice = 0,
                     enabled = True\<rparr>],
          users := [\<lparr>user_id = 1, userEmail = ''u1@shop'', cartId = None\<rparr>,
                    \<lparr>user_id = 2, userEmail = ''u2@shop'', cartId = Some 100\<rparr>]\<rparr>)"
    by (simp add: clearCart_def createCart_def findCart_def findUserById_def insertCart_def
        db0_def all_ok_def Let_def)
  show ?thesis
    using a b c f g h i j clearCart_without_enabled_cart [OF a b c] by auto
qed

section \<open>updateStock with a zero or negative amount\<close>

text \<open>
  Claim C8, as the code has it. \<open>updateStock\<close> takes a signed amount and has no
  invalid-argument check. For a zero or negative amount on an existing record whose writes
  are accepted: when the amount is negative and its magnitude exceeds the stock, the call
  fails and the store is unchanged; otherwise the call succeeds, returns stock plus amount,
  and the record's stock is stock plus amount (for amount 0: unchanged).
\<close>

theorem updateStock_signed_delta:
  assumes "records d rid = Some r" and "amt \<le> 0" and "recordWrites e"
  shows "(if amt < 0 \<and> stock r < - amt
          then updateStock e d rid amt = (Inl CannotDecreaseStock, d)
          else fst (updateStock e d rid amt) = Inr (stock r + amt) \<and>
               map_option stock (records (snd (updateStock e d rid amt)) rid) = Some (stock r + amt))"
  using assms by (auto simp: updateStock_def Let_def)

theorem updateStock_signed_delta_witness:
  "records db0 10 = Some recP \<and> (- 2 :: int) \<le> 0 \<and> recordWrites all_ok \<and>
   fst (updateStock all_ok db0 10 (- 2)) = Inr 3 \<and>
   map_option stock (records (snd (updateStock all_ok db0 10 (- 2))) 10) = Some 3 \<and>
   updateStock all_ok db0 10 (- 6) = (Inl CannotDecreaseStock, db0)"
proof -
  have a: "records db0 10 = Some recP" by (simp add: db0_def)
  have b: "(- 2 :: int) \<le> 0" "(- 6 :: int) \<le> 0" by simp_all
  have c: "recordWrites all_ok" by (simp add: all_ok_def)
  have s: "stock recP = 5" by (simp add: recP_def)
  show ?thesis
    using a b c s updateStock_signed_delta [OF a b(1) c] updateStock_signed_delta [OF a b(2) c]
    by simp
qed

text \<open>
  Claim C8 as stated fails: with amount 0 the call succeeds, and with amount -2 on stock 5
  it succeeds and the stock becomes 3.
\<close>

theorem updateStock_nonpositive_counterexample:
  "fst (updateStock all_ok db0 10 0) = Inr 5 \<and>
   fst (updateStock all_ok db0 10 (- 2)) = Inr 3 \<and>
   map_option stock (records db0 10) = Some 5 \<and>
   map_option stock (records (snd (updateStock all_ok db0 10 (- 2))) 10) = Some 3"
  by (simp add: updateStock_def db0_def recP_def all_ok_def)

section \<open>Adding and removing the same amount\<close>

text \<open>
  Claim C9. Let the user be found by the e-mail address (whatever contact address the
  add is given), let the record have at least
  \<open>amt\<close> units in stock, \<open>amt\<close> at least 1, let the user's enabled cart (if any) hold no
  line for the record, and let all writes be accepted. Then \<open>addItemToCart\<close> succeeds,
  lowers the stock by \<open>amt\<close> and leaves the user's enabled cart with a line of amount
  \<open>amt\<close> for the record; the following \<open>removeItemFromCartByEmail\<close> of the same amount
  restores the record to what it was before the add, leaves the user's enabled cart
  without a line for the record and with exactly the lines the enabled cart had before
  the add (none, if the user had no enabled cart), and answers with the populated cart.
\<close>

theorem add_then_remove_roundtrip:
  assumes "findUserByEmail d email = Some u" and "user_id u = uid"
    and "records d rid = Some r" and "1 \<le> amt" and "amt \<le> stock r"
    and "case findCart d uid True of
           None \<Rightarrow> True
         | Some c \<Rightarrow> findIndex (\<lambda>item. recordId item = rid) (items c) = None"
    and "recordWrites e" and "cartWrites e" and "recordWrites e'" and "cartWrites e'"
  shows "(\<exists>res. fst (addItemToCart e d uid rid amt contact) = Inr res) \<and>
         map_option stock (records (snd (addItemToCart e d uid rid amt contact)) rid)
           = Some (stock r - amt) \<and>
         (\<exists>c1 i. findCart (snd (addItemToCart e d uid rid amt contact)) uid True = Some c1 \<and>
            findIndex (\<lambda>item. recordId item = rid) (items c1) = Some i \<and>
            amount (items c1 ! i) = amt) \<and>
         records (snd (removeItemFromCartByEmail e'
                    (snd (addItemToCart e d uid rid amt contact)) email rid amt)) rid = Some r \<and>
         (\<exists>c2. findCart (snd (removeItemFromCartByEmail e'
                    (snd (addItemToCart e d uid rid amt contact)) email rid amt)) uid True = Some c2 \<and>
            findIndex (\<lambda>item. recordId item = rid) (items c2) = None \<and>
            items c2 = (case findCart d uid True of None \<Rightarrow> [] | Some c0 \<Rightarrow> items c0)) \<and>
         fst (removeItemFromCartByEmail e' (snd (addItemToCart e d uid rid amt contact)) email rid amt)
           = getCartByUserId (snd (removeItemFromCartByEmail e'
                    (snd (addItemToCart e d uid rid amt contact)) email rid amt)) uid"
proof -
  have ns: "\<not> stock r < amt" using assms(5) by simp
  obtain c isNew d0 where rc: "resolveCart d uid contact = (c, isNew, d0)"
    by (cases "resolveCart d uid contact") auto
  note fr = resolveCart_frame [OF rc]
  note pr = resolveCart_props [OF rc]
  have noline: "findIndex (\<lambda>item. recordId item = rid) (items c) = None"
  proof (cases "findCart d uid True")
    case None
    then show ?thesis using pr(3) by simp
  next
    case (Some c0)
    then show ?thesis using pr(4) [OF Some] assms(6) by simp
  qed
  have before: "items c = (case findCart d uid True of None \<Rightarrow> [] | Some c0 \<Rightarrow> items c0)"
  proof (cases "findCart d uid True")
    case None
    then show ?thesis using pr(3) by simp
  next
    case (Some c0)
    then show ?thesis using pr(4) [OF Some] by simp
  qed
  define dS where "dS = setStock d0 rid r (stock r - amt)"
  define c1 where "c1 = addedCart (num e) c r rid amt"
  define d1 where "d1 = (if isNew then insertCart dS c1 else updateCart dS c1)"
  define line where "line = \<lparr>recordId = rid, amount = amt, itemPrice = orZero (price r),
      itemDetails = Some \<lparr>rd_title = (if title r = [] then ''Untitled'' else title r),
                           rd_image = (case imageRecord r of None \<Rightarrow> [] | Some s \<Rightarrow> s)\<rparr>\<rparr>"
  have c1_items: "items c1 = items c @ [line]"
    using noline by (simp add: c1_def addedCart_def addLine_def line_def Let_def)
  have c1_props: "userId c1 = uid" "enabled c1" "cart_id c1 = cart_id c"
    using pr(1,2) by (simp_all add: c1_def addedCart_def Let_def)
  have add_snd: "snd (addItemToCart e d uid rid amt contact) = d1"
    using assms(7,8) by (simp add: addItemToCart_snd [OF assms(3) ns rc] d1_def dS_def c1_def)
  have dS_carts: "carts dS = carts d" using fr(2) by (simp add: dS_def)
  have fc1: "findCart d1 uid True = Some c1"
    unfolding d1_def using rc c1_props dS_carts by (rule resolveCart_saved)
  have users1: "users d1 = users d" using fr(3) by (simp add: d1_def dS_def)
  have rec1: "records d1 rid = Some (r\<lparr>stock := stock r - amt\<rparr>)"
    by (simp add: d1_def dS_def)
  have idx: "findIndex (\<lambda>item. recordId item = rid) (items c1) = Some (length (items c))"
    unfolding c1_items using noline by (intro findIndex_append_new) (simp_all add: line_def)
  have amt1: "amount (items c1 ! length (items c)) = amt"
    by (simp add: c1_items line_def)
  have add_fst: "\<exists>res. fst (addItemToCart e d uid rid amt contact) = Inr res"
  proof -
    have "c1 \<in> set (carts d1)" using fc1 by (auto simp: findCart_def dest: find_Some_mem)
    then obtain y where "findCartById d1 (cart_id c) = Some y"
      using find_mem_Some [of c1 "carts d1" "\<lambda>x. cart_id x = cart_id c"] c1_props(3)
      by (auto simp: findCartById_def)
    then show ?thesis
      using assms(7,8) unfolding d1_def dS_def c1_def
      by (cases isNew) (simp_all add: addItemToCart_ok [OF assms(3) ns rc] Let_def)
  qed
  have u1: "findUserByEmail d1 email = Some u" using assms(1) users1 by (simp add: findUserByEmail_def)
  have fc1': "findCart d1 (user_id u) True = Some c1" using fc1 assms(2) by simp
  have idx': "findIndex (\<lambda>item. recordId item = rid) (items c1) = Some (length (items c))"
    by (rule idx)
  have ge: "\<not> amount (items c1 ! length (items c)) < amt" using amt1 by simp
  define c2 where "c2 = removedCart (num e') c1 (length (items c)) amt"
  define d2 where "d2 = updateCart (setStock d1 rid (r\<lparr>stock := stock r - amt\<rparr>)
                          (stock (r\<lparr>stock := stock r - amt\<rparr>) + amt)) c2"
  have rem: "removeItemFromCartByEmail e' d1 email rid amt = (getCartByUserId d2 (userId c1), d2)"
    using assms(9,10) rec1
    by (simp add: removeItemFromCartByEmail_ok [OF u1 fc1' idx' ge] d2_def c2_def)
  have c2_items: "items c2 = items c"
    using amt1 by (simp add: c2_def removedCart_def recalculateTotal_def c1_items)
  have c2_props: "userId c2 = uid" "enabled c2 = True" "cart_id c2 = cart_id c1"
    using c1_props by (simp_all add: c2_def removedCart_def recalculateTotal_def)
  have "findCart (setStock d1 rid (r\<lparr>stock := stock r - amt\<rparr>)
          (stock (r\<lparr>stock := stock r - amt\<rparr>) + amt)) uid True = Some c1"
    using fc1 by (simp add: findCart_def)
  then have fc2: "findCart d2 uid True = Some c2"
    unfolding d2_def using c2_props by (rule findCart_updateCart_same)
  have rec2: "records d2 rid = Some r" by (simp add: d2_def)
  show ?thesis
    unfolding add_snd rem
    using add_fst rec1 fc1 idx amt1 rec2 fc2 c2_items noline c1_props(1) before
    by simp
qed

theorem add_then_remove_roundtrip_witness:
  "findUserByEmail db0 ''u1@shop'' = Some \<lparr>user_id = 1, userEmail = ''u1@shop'', cartId = None\<rparr> \<and>
   records db0 10 = Some recP \<and> (3 :: int) \<le> stock recP \<and> findCart db0 1 True = None \<and>
   map_option stock (records (snd (addItemToCart all_ok db0 1 10 3 ''u1@shop'')) 10) = Some 2 \<and>
   map_option (\<lambda>c. map amount (items c))
     (findCart (snd (addItemToCart all_ok db0 1 10 3 ''u1@shop'')) 1 True) = Some [3] \<and>
   records (snd (removeItemFromCartByEmail all_ok
              (snd (addItemToCart all_ok db0 1 10 3 ''u1@shop'')) ''u1@shop'' 10 3)) 10 = Some recP \<and>
   map_option items (findCart (snd (removeItemFromCartByEmail all_ok
              (snd (addItemToCart all_ok db0 1 10 3 ''u1@shop'')) ''u1@shop'' 10 3)) 1 True) = Some []"
proof -
  let ?u = "\<lparr>user_id = 1, userEmail = ''u1@shop'', cartId = None\<rparr>"
  have a: "findUserByEmail db0 ''u1@shop'' = Some ?u" by (simp add: findUserByEmail_def db0_def)
  have b: "user_id ?u = 1" by simp
  have c: "records db0 10 = Some recP" by (simp add: db0_def)
  have d: "(1 :: int) \<le> 3" "(3 :: int) \<le> stock recP" by (simp_all add: recP_def)
  have f: "findCart db0 1 True = None" by (simp add: findCart_def db0_def)
  then have g: "case findCart db0 1 True of None \<Rightarrow> True
      | Some c \<Rightarrow> findIndex (\<lambda>item. recordId item = 10) (items c) = None" by simp
  have w: "recordWrites all_ok" "cartWrites all_ok" by (simp_all add: all_ok_def)
  have s: "stock recP - 3 = 2" by (simp add: recP_def)
  have mid: "map_option (\<lambda>c. map amount (items c))
     (findCart (snd (addItemToCart all_ok db0 1 10 3 ''u1@shop'')) 1 True) = Some [3]"
    by (simp add: addItemToCart_def resolveCart_def findCart_def findCartById_def insertCart_def
        setStock_def addLine_def db0_def recP_def all_ok_def Let_def)
  have fin: "map_option items (findCart (snd (removeItemFromCartByEmail all_ok
              (snd (addItemToCart all_ok db0 1 10 3 ''u1@shop'')) ''u1@shop'' 10 3)) 1 True) = Some []"
    by (simp add: addItemToCart_def resolveCart_def findCart_def findCartById_def insertCart_def
        setStock_def addLine_def removeItemFromCartByEmail_def findUserByEmail_def updateCart_def
        splice1_def recalculateTotal_def db0_def recP_def all_ok_def Let_def)
  show ?thesis
    using a c d f s mid fin add_then_remove_roundtrip [OF a b c d g w w, of "''u1@shop''"] by simp
qed

end
